theory Spec2Isabelle
  imports Main "HOL-Library.Word" "HOL-Library.Code_Target_Nat"
begin

section \<open>JavaScript values\<close>

text \<open>
  The repository stores a document as the text \<open>JSON.stringify(data)\<close> of its payload and
  reads it back with \<open>JSON.parse(message.content)\<close>. A payload is a value that JSON can
  denote; \<open>undefined\<close>, functions and other values that JSON cannot denote are not
  modelled.

  \<^item> A string is a list of 16-bit code units, as in JavaScript. \<open>utf16\<close> writes such a
    string with the characters of a literal; it is used for the names that occur in the
    code and in the examples.
  \<^item> The numbers are the values of a type \<open>'n\<close> that is left open: JavaScript's numbers
    are floating-point numbers, and nothing below depends on what they are.
  \<^item> An object is the list of its own properties in the order in which JavaScript
    enumerates them: array-index keys first, in ascending numeric order, then the other
    keys in the order of their creation.
\<close>

type_synonym code_unit = "16 word"

type_synonym jstring = "code_unit list"

definition code_of :: "char \<Rightarrow> code_unit" where
  "code_of c = of_nat (of_char c)"

definition utf16 :: "string \<Rightarrow> jstring" where
  "utf16 s = map code_of s"

datatype 'n json =
    JNull
  | JBool bool
  | JNum 'n
  | JStr jstring
  | JArr "'n json list"
  | JObj "(jstring \<times> 'n json) list"

subsection \<open>Decimal numerals\<close>

definition digit_unit :: "nat \<Rightarrow> code_unit" where
  "digit_unit d = of_nat (48 + d)"

definition is_digit :: "code_unit \<Rightarrow> bool" where
  "is_digit c = (48 \<le> unat c \<and> unat c \<le> 57)"

definition digit_val :: "code_unit \<Rightarrow> nat" where
  "digit_val c = unat c - 48"

fun digits :: "nat \<Rightarrow> jstring" where
  "digits n = (if n < 10 then [digit_unit n] else digits (n div 10) @ [digit_unit (n mod 10)])"

declare digits.simps [simp del]

definition nat_of_digits :: "jstring \<Rightarrow> nat" where
  "nat_of_digits ds = foldl (\<lambda>a c. 10 * a + digit_val c) 0 ds"

text \<open>The keys that are the decimal numeral of a number, written without a leading zero.\<close>

definition canonical_numeral :: "jstring \<Rightarrow> bool" where
  "canonical_numeral k =
     (k \<noteq> [] \<and> list_all is_digit k \<and> (k = [digit_unit 0] \<or> hd k \<noteq> digit_unit 0))"

subsection \<open>Objects: property order\<close>

text \<open>
  An array index is a key that is the canonical decimal numeral of a number below
  \<open>2^32 - 1\<close>.
\<close>

definition array_index :: "jstring \<Rightarrow> nat option" where
  "array_index k =
     (if canonical_numeral k \<and> nat_of_digits k < 4294967295
      then Some (nat_of_digits k) else None)"

fun insert_index ::
  "nat \<Rightarrow> jstring \<Rightarrow> 'n json \<Rightarrow> (jstring \<times> 'n json) list \<Rightarrow> (jstring \<times> 'n json) list" where
  "insert_index i k v [] = [(k, v)]"
| "insert_index i k v (p # ps) =
     (case array_index (fst p) of
        Some j \<Rightarrow> if j < i then p # insert_index i k v ps else (k, v) # p # ps
      | None \<Rightarrow> (k, v) # p # ps)"

text \<open>
  \<open>obj_set k v ps\<close> defines the property \<open>k\<close> of an object: an existing property keeps
  its place and takes the new value; a new array index goes to its numeric place; any
  other new key goes to the end.
\<close>

definition obj_set ::
  "jstring \<Rightarrow> 'n json \<Rightarrow> (jstring \<times> 'n json) list \<Rightarrow> (jstring \<times> 'n json) list" where
  "obj_set k v ps =
     (if k \<in> fst ` set ps then map (\<lambda>p. if fst p = k then (k, v) else p) ps
      else case array_index k of
             None \<Rightarrow> ps @ [(k, v)]
           | Some i \<Rightarrow> insert_index i k v ps)"

definition obj_get :: "(jstring \<times> 'n json) list \<Rightarrow> jstring \<Rightarrow> 'n json option" where
  "obj_get ps k = map_of ps k"

definition define_all ::
  "(jstring \<times> 'n json) list \<Rightarrow> (jstring \<times> 'n json) list \<Rightarrow> (jstring \<times> 'n json) list" where
  "define_all props target = fold (\<lambda>p. obj_set (fst p) (snd p)) props target"

text \<open>
  The own enumerable properties that an object spread \<open>{...v}\<close> copies: those of an
  object, the elements of an array and the code units of a string under their indices,
  and nothing for a number, a boolean or \<open>null\<close>.
\<close>

fun own_props :: "'n json \<Rightarrow> (jstring \<times> 'n json) list" where
  "own_props (JObj ps) = ps"
| "own_props (JArr xs) = zip (map digits [0..<length xs]) xs"
| "own_props (JStr s) = zip (map digits [0..<length s]) (map (\<lambda>c. JStr [c]) s)"
| "own_props _ = []"

definition spread :: "(jstring \<times> 'n json) list \<Rightarrow> 'n json \<Rightarrow> (jstring \<times> 'n json) list" where
  "spread target v = define_all (own_props v) target"

subsection \<open>Reading a property\<close>

text \<open>
  \<open>own_property v k\<close> is the value of the own enumerable property \<open>k\<close> of \<open>v\<close>, if there
  is one: a property of an object, the element of an array or the code unit of a string
  at the index that \<open>k\<close> denotes. It is what \<open>v[k]\<close> evaluates to for such a property and
  is stated without reference to \<open>own_props\<close>.
\<close>

fun own_property :: "'n json \<Rightarrow> jstring \<Rightarrow> 'n json option" where
  "own_property (JObj ps) k = obj_get ps k"
| "own_property (JArr xs) k =
     (if canonical_numeral k \<and> nat_of_digits k < length xs then Some (xs ! nat_of_digits k)
      else None)"
| "own_property (JStr s) k =
     (if canonical_numeral k \<and> nat_of_digits k < length s then Some (JStr [s ! nat_of_digits k])
      else None)"
| "own_property v k = None"

text \<open>The keys of an object are pairwise different.\<close>

fun distinct_keys :: "'n json \<Rightarrow> bool" where
  "distinct_keys (JObj ps) = distinct (map fst ps)"
| "distinct_keys v = True"

text \<open>The values that are not objects, arrays or strings: they have no own properties.\<close>

fun scalar :: "'n json \<Rightarrow> bool" where
  "scalar JNull = True"
| "scalar (JBool b) = True"
| "scalar (JNum x) = True"
| "scalar v = False"

subsection \<open>The JSON functions of the runtime\<close>

text \<open>
  \<open>JSON.parse\<close> and \<open>JSON.stringify\<close> belong to the JavaScript runtime and not to the
  repository. They are parameters of everything below: \<open>JSON_parse rt s\<close> is \<open>None\<close>
  when \<open>JSON.parse(s)\<close> throws and the value it returns otherwise, and
  \<open>JSON_stringify rt v\<close> is the text \<open>JSON.stringify(v)\<close>. The theorems hold for every
  value of \<open>rt\<close>.
\<close>

record 'n runtime =
  JSON_parse :: "jstring \<Rightarrow> 'n json option"
  JSON_stringify :: "'n json \<Rightarrow> jstring"

section \<open>The chat platform\<close>

text \<open>
  \<open>DiscordClient\<close> talks to the platform through the \<open>discord.js\<close> client. The
  operations it uses are the fields of the record \<open>discord\<close>; each one reads and
  changes a platform state of type \<open>'s\<close>, and an asynchronous one returns \<open>Inl e\<close>
  when its promise is rejected with \<open>e\<close>. Nothing is assumed about how the platform
  answers: the theorems hold for every value of this record.
\<close>

datatype error = Error jstring

datatype ChannelType = GuildText | GuildVoice | GuildCategory

record channel =
  channel_id :: jstring
  channel_name :: jstring
  channel_type :: ChannelType

record message =
  msg_id :: jstring
  content :: jstring

record guild =
  guild_id :: jstring
  channels_cache :: "channel list"

record 's discord =
  guilds_cache_get :: "jstring \<Rightarrow> 's \<Rightarrow> guild option"
  channels_create :: "guild \<Rightarrow> jstring \<Rightarrow> ChannelType \<Rightarrow> 's \<Rightarrow> (error + channel) \<times> 's"
  channel_send :: "channel \<Rightarrow> jstring \<Rightarrow> 's \<Rightarrow> (error + message) \<times> 's"
  messages_fetch :: "channel \<Rightarrow> nat \<Rightarrow> jstring option \<Rightarrow> 's \<Rightarrow> (error + message list) \<times> 's"
  message_fetch :: "channel \<Rightarrow> jstring \<Rightarrow> 's \<Rightarrow> (error + message) \<times> 's"
  message_edit :: "message \<Rightarrow> jstring \<Rightarrow> 's \<Rightarrow> (error + unit) \<times> 's"
  message_delete :: "message \<Rightarrow> 's \<Rightarrow> (error + unit) \<times> 's"

section \<open>\<open>DiscordClient\<close>\<close>

text \<open>
  The class \<open>DiscordClient\<close> of \<open>src/core/DiscordClient.ts\<close>: its two fields and, under
  their own names, its methods. An \<open>async\<close> method is a function from the platform state
  to its outcome and the new state; \<open>await\<close> is the sequencing of such functions, and a
  \<open>throw\<close> or a rejected promise is the outcome \<open>Inl\<close>. The result of \<open>message.edit\<close> and of
  \<open>message.delete\<close> is not used by the code and is left out.
\<close>

record 's DiscordClient =
  client :: "'s discord"
  guildId :: jstring

definition getGuild :: "'s DiscordClient \<Rightarrow> 's \<Rightarrow> error + guild" where
  "getGuild dc \<sigma> =
     (case guilds_cache_get (client dc) (guildId dc) \<sigma> of
        None \<Rightarrow> Inl (Error (utf16 ''Guild not found in cache''))
      | Some guild \<Rightarrow> Inr guild)"

definition resolveCollectionChannel ::
  "'s DiscordClient \<Rightarrow> jstring \<Rightarrow> 's \<Rightarrow> (error + channel) \<times> 's" where
  "resolveCollectionChannel dc collection \<sigma> =
     (case getGuild dc \<sigma> of
        Inl e \<Rightarrow> (Inl e, \<sigma>)
      | Inr guild \<Rightarrow>
          (case find (\<lambda>channel. channel_type channel = GuildText \<and> channel_name channel = collection)
                  (channels_cache guild) of
             Some channel \<Rightarrow> (Inr channel, \<sigma>)
           | None \<Rightarrow> channels_create (client dc) guild collection GuildText \<sigma>))"

definition sendMessage :: "'s DiscordClient \<Rightarrow> channel \<Rightarrow> jstring \<Rightarrow> 's \<Rightarrow> (error + jstring) \<times> 's" where
  "sendMessage dc channel txt \<sigma> =
     (case channel_send (client dc) channel txt \<sigma> of
        (Inl e, \<sigma>') \<Rightarrow> (Inl e, \<sigma>')
      | (Inr message, \<sigma>') \<Rightarrow> (Inr (msg_id message), \<sigma>'))"

definition fetchMessages ::
  "'s DiscordClient \<Rightarrow> channel \<Rightarrow> jstring option \<Rightarrow> 's \<Rightarrow> (error + message list) \<times> 's" where
  "fetchMessages dc channel lastMessageId \<sigma> = messages_fetch (client dc) channel 100 lastMessageId \<sigma>"

definition fetchMessageById ::
  "'s DiscordClient \<Rightarrow> channel \<Rightarrow> jstring \<Rightarrow> 's \<Rightarrow> (error + message option) \<times> 's" where
  "fetchMessageById dc channel messageId \<sigma> =
     (case message_fetch (client dc) channel messageId \<sigma> of
        (Inl e, \<sigma>') \<Rightarrow> (Inr None, \<sigma>')
      | (Inr message, \<sigma>') \<Rightarrow> (Inr (Some message), \<sigma>'))"

definition editMessage :: "'s DiscordClient \<Rightarrow> message \<Rightarrow> jstring \<Rightarrow> 's \<Rightarrow> (error + unit) \<times> 's" where
  "editMessage dc message txt \<sigma> = message_edit (client dc) message txt \<sigma>"

definition deleteMessage :: "'s DiscordClient \<Rightarrow> message \<Rightarrow> 's \<Rightarrow> (error + unit) \<times> 's" where
  "deleteMessage dc message \<sigma> = message_delete (client dc) message \<sigma>"

section \<open>\<open>DiscordRepository\<close>\<close>

text \<open>
  The repository runs against a \<open>DiscordClient\<close>. Every call it makes to one of the
  client's methods is recorded, in order, in a trace that is threaded with the platform
  state, so that ``never invokes'' and ``exactly once'' are statements about this trace.
\<close>

datatype call =
    ResolveCollectionChannel jstring
  | SendMessage channel jstring
  | FetchMessages channel "jstring option"
  | FetchMessageById channel jstring
  | EditMessage message jstring
  | DeleteMessage message

definition invoke :: "call \<Rightarrow> ('s \<Rightarrow> 'a \<times> 's) \<Rightarrow> 's \<times> call list \<Rightarrow> 'a \<times> ('s \<times> call list)" where
  "invoke c f w = (case f (fst w) of (r, \<sigma>') \<Rightarrow> (r, (\<sigma>', snd w @ [c])))"

text \<open>The object literal \<open>{ id: message.id, ...data }\<close>.\<close>

definition document :: "jstring \<Rightarrow> 'n json \<Rightarrow> 'n json" where
  "document mid data = JObj (spread [(utf16 ''id'', JStr mid)] data)"

text \<open>The object literal \<open>{ ...existingData, ...data }\<close>.\<close>

definition merged :: "'n json \<Rightarrow> 'n json \<Rightarrow> 'n json" where
  "merged existingData data = JObj (spread (spread [] existingData) data)"

text \<open>
  The methods of the class \<open>DiscordRepository\<close> of \<open>src/core/DiscordRepository.ts\<close>.
  \<open>insert\<close> is named \<open>insert_doc\<close> here, the name \<open>insert\<close> being taken; \<open>findAll\<close>,
  \<open>findById\<close>, \<open>update\<close> and \<open>delete\<close> keep their names. The methods that call
  \<open>JSON.parse\<close> or \<open>JSON.stringify\<close> take the runtime \<open>rt\<close> as their first argument. A
  \<open>catch\<close> block is the branch taken on \<open>None\<close> from \<open>JSON_parse\<close> or on \<open>Inl\<close> from a
  call inside the \<open>try\<close> block.
\<close>

definition insert_doc ::
  "'n runtime \<Rightarrow> 's DiscordClient \<Rightarrow> jstring \<Rightarrow> 'n json \<Rightarrow> 's \<times> call list
     \<Rightarrow> (error + jstring) \<times> ('s \<times> call list)" where
  "insert_doc rt dc collection data w =
     (case invoke (ResolveCollectionChannel collection) (resolveCollectionChannel dc collection) w of
        (Inl e, w1) \<Rightarrow> (Inl e, w1)
      | (Inr channel, w1) \<Rightarrow>
          invoke (SendMessage channel (JSON_stringify rt data))
            (sendMessage dc channel (JSON_stringify rt data)) w1)"

text \<open>The \<open>for\<close> loop of \<open>findAll\<close> over one page: a message whose text does not parse is skipped.\<close>

fun collect_documents :: "'n runtime \<Rightarrow> message list \<Rightarrow> 'n json list \<Rightarrow> 'n json list" where
  "collect_documents rt [] results = results"
| "collect_documents rt (message # rest) results =
     (case JSON_parse rt (content message) of
        None \<Rightarrow> collect_documents rt rest results
      | Some data \<Rightarrow> collect_documents rt rest (results @ [document (msg_id message) data]))"

text \<open>
  The \<open>while (true)\<close> loop of \<open>findAll\<close>. It has no bound of its own: the result is
  \<open>None\<close> when the loop does not end.
\<close>

partial_function (option) findAll_loop ::
  "'n runtime \<Rightarrow> 's DiscordClient \<Rightarrow> channel \<Rightarrow> jstring option \<Rightarrow> 'n json list \<Rightarrow> 's \<times> call list
     \<Rightarrow> ((error + 'n json list) \<times> ('s \<times> call list)) option" where
  "findAll_loop rt dc channel lastMessageId results w =
     (case invoke (FetchMessages channel lastMessageId) (fetchMessages dc channel lastMessageId) w of
        (Inl e, w1) \<Rightarrow> Some (Inl e, w1)
      | (Inr fetchedMessages, w1) \<Rightarrow>
          if length fetchedMessages = 0 then Some (Inr results, w1)
          else if length fetchedMessages < 100
            then Some (Inr (collect_documents rt fetchedMessages results), w1)
          else findAll_loop rt dc channel (Some (msg_id (last fetchedMessages)))
                 (collect_documents rt fetchedMessages results) w1)"

definition findAll ::
  "'n runtime \<Rightarrow> 's DiscordClient \<Rightarrow> jstring \<Rightarrow> 's \<times> call list
     \<Rightarrow> ((error + 'n json list) \<times> ('s \<times> call list)) option" where
  "findAll rt dc collection w =
     (case invoke (ResolveCollectionChannel collection) (resolveCollectionChannel dc collection) w of
        (Inl e, w1) \<Rightarrow> Some (Inl e, w1)
      | (Inr channel, w1) \<Rightarrow> findAll_loop rt dc channel None [] w1)"

definition findById ::
  "'n runtime \<Rightarrow> 's DiscordClient \<Rightarrow> jstring \<Rightarrow> jstring \<Rightarrow> 's \<times> call list
     \<Rightarrow> (error + 'n json option) \<times> ('s \<times> call list)" where
  "findById rt dc collection ident w =
     (case invoke (ResolveCollectionChannel collection) (resolveCollectionChannel dc collection) w of
        (Inl e, w1) \<Rightarrow> (Inl e, w1)
      | (Inr channel, w1) \<Rightarrow>
          (case invoke (FetchMessageById channel ident) (fetchMessageById dc channel ident) w1 of
             (Inl e, w2) \<Rightarrow> (Inl e, w2)
           | (Inr None, w2) \<Rightarrow> (Inr None, w2)
           | (Inr (Some message), w2) \<Rightarrow>
               (case JSON_parse rt (content message) of
                  None \<Rightarrow> (Inr None, w2)
                | Some data \<Rightarrow> (Inr (Some (document (msg_id message) data)), w2))))"

definition update ::
  "'n runtime \<Rightarrow> 's DiscordClient \<Rightarrow> jstring \<Rightarrow> jstring \<Rightarrow> 'n json \<Rightarrow> 's \<times> call list
     \<Rightarrow> (error + bool) \<times> ('s \<times> call list)" where
  "update rt dc collection ident data w =
     (case invoke (ResolveCollectionChannel collection) (resolveCollectionChannel dc collection) w of
        (Inl e, w1) \<Rightarrow> (Inl e, w1)
      | (Inr channel, w1) \<Rightarrow>
          (case invoke (FetchMessageById channel ident) (fetchMessageById dc channel ident) w1 of
             (Inl e, w2) \<Rightarrow> (Inl e, w2)
           | (Inr None, w2) \<Rightarrow> (Inr False, w2)
           | (Inr (Some message), w2) \<Rightarrow>
               (case JSON_parse rt (content message) of
                  None \<Rightarrow> (Inr False, w2)
                | Some existingData \<Rightarrow>
                    (case invoke (EditMessage message (JSON_stringify rt (merged existingData data)))
                            (editMessage dc message (JSON_stringify rt (merged existingData data))) w2 of
                       (Inl e, w3) \<Rightarrow> (Inr False, w3)
                     | (Inr u, w3) \<Rightarrow> (Inr True, w3)))))"

definition delete ::
  "'s DiscordClient \<Rightarrow> jstring \<Rightarrow> jstring \<Rightarrow> 's \<times> call list
     \<Rightarrow> (error + bool) \<times> ('s \<times> call list)" where
  "delete dc collection ident w =
     (case invoke (ResolveCollectionChannel collection) (resolveCollectionChannel dc collection) w of
        (Inl e, w1) \<Rightarrow> (Inl e, w1)
      | (Inr channel, w1) \<Rightarrow>
          (case invoke (FetchMessageById channel ident) (fetchMessageById dc channel ident) w1 of
             (Inl e, w2) \<Rightarrow> (Inl e, w2)
           | (Inr None, w2) \<Rightarrow> (Inr False, w2)
           | (Inr (Some message), w2) \<Rightarrow>
               (case invoke (DeleteMessage message) (deleteMessage dc message) w2 of
                  (Inl e, w3) \<Rightarrow> (Inl e, w3)
                | (Inr u, w3) \<Rightarrow> (Inr True, w3))))"

section \<open>Notions used in the statements\<close>

text \<open>
  \<open>served dc ch cursor \<sigma> pages\<close> holds the platform state reached when the successive
  page fetches, the first with \<open>cursor\<close> and each next one with the id of the last
  message of the page before, are answered with exactly \<open>pages\<close>; it is \<open>None\<close> when
  the platform answers otherwise. \<open>fetch_calls\<close> lists those fetches.
\<close>

fun served :: "'s DiscordClient \<Rightarrow> channel \<Rightarrow> jstring option \<Rightarrow> 's \<Rightarrow> message list list \<Rightarrow> 's option" where
  "served dc ch cursor \<sigma> [] = Some \<sigma>"
| "served dc ch cursor \<sigma> (p # ps) =
     (case fetchMessages dc ch cursor \<sigma> of
        (Inl e, \<sigma>') \<Rightarrow> None
      | (Inr q, \<sigma>') \<Rightarrow> if q = p then served dc ch (Some (msg_id (last p))) \<sigma>' ps else None)"

fun fetch_calls :: "channel \<Rightarrow> jstring option \<Rightarrow> message list list \<Rightarrow> call list" where
  "fetch_calls ch cursor [] = []"
| "fetch_calls ch cursor (p # ps) = FetchMessages ch cursor # fetch_calls ch (Some (msg_id (last p))) ps"

section \<open>A runtime for the examples\<close>

text \<open>
  The concrete instances below need one runtime to compute with. This one writes and
  reads JSON texts whose numbers are exact decimal numbers: \<open>Decimal m k\<close> stands for
  \<open>m\<close> divided by ten to the power \<open>k\<close>, with the least such \<open>k\<close>. Its reader follows the
  JSON grammar, with fractions, exponents and all escapes. It is not JavaScript's runtime,
  whose numbers are rounded to floating-point numbers; the instances use only small whole
  numbers, on which the two agree. It occurs only in statements about concrete inputs;
  every general theorem is about an arbitrary runtime \<open>rt\<close>.
\<close>

datatype decimal = Decimal int nat

subsection \<open>Writing\<close>

definition hex_unit :: "nat \<Rightarrow> code_unit" where
  "hex_unit d = (if d < 10 then of_nat (48 + d) else of_nat (87 + d))"

definition unicode_escape :: "code_unit \<Rightarrow> jstring" where
  "unicode_escape c =
     [code_of (CHR 0x5C), code_of CHR ''u'', hex_unit (unat c div 4096), hex_unit (unat c div 256 mod 16),
      hex_unit (unat c div 16 mod 16), hex_unit (unat c mod 16)]"

definition escape :: "code_unit \<Rightarrow> jstring" where
  "escape c =
     (if c = code_of (CHR 0x22) then [code_of (CHR 0x5C), code_of (CHR 0x22)]
      else if c = code_of (CHR 0x5C) then [code_of (CHR 0x5C), code_of (CHR 0x5C)]
      else if c = code_of (CHR 0x08) then [code_of (CHR 0x5C), code_of CHR ''b'']
      else if c = code_of (CHR 0x0C) then [code_of (CHR 0x5C), code_of CHR ''f'']
      else if c = code_of (CHR 0x0A) then [code_of (CHR 0x5C), code_of CHR ''n'']
      else if c = code_of (CHR 0x0D) then [code_of (CHR 0x5C), code_of CHR ''r'']
      else if c = code_of (CHR 0x09) then [code_of (CHR 0x5C), code_of CHR ''t'']
      else if unat c < 32 then unicode_escape c
      else [c])"

definition is_lead :: "code_unit \<Rightarrow> bool" where
  "is_lead c = (55296 \<le> unat c \<and> unat c \<le> 56319)"

definition is_trail :: "code_unit \<Rightarrow> bool" where
  "is_trail c = (56320 \<le> unat c \<and> unat c \<le> 57343)"

text \<open>A surrogate pair is written as it is; a surrogate that stands alone is escaped.\<close>

fun escape_units :: "jstring \<Rightarrow> jstring" where
  "escape_units [] = []"
| "escape_units [c] = (if is_lead c \<or> is_trail c then unicode_escape c else escape c)"
| "escape_units (c # d # r) =
     (if is_lead c \<and> is_trail d then c # d # escape_units r
      else if is_lead c \<or> is_trail c then unicode_escape c @ escape_units (d # r)
      else escape c @ escape_units (d # r))"

definition quote :: "jstring \<Rightarrow> jstring" where
  "quote s = code_of (CHR 0x22) # escape_units s @ [code_of (CHR 0x22)]"

definition write_digits :: "jstring \<Rightarrow> nat \<Rightarrow> jstring" where
  "write_digits ds k =
     (if k = 0 then ds
      else if k < length ds then take (length ds - k) ds @ utf16 ''.'' @ drop (length ds - k) ds
      else utf16 ''0.'' @ replicate (k - length ds) (digit_unit 0) @ ds)"

fun write_number :: "decimal \<Rightarrow> jstring" where
  "write_number (Decimal m k) =
     (if m < 0 then utf16 ''-'' @ write_digits (digits (nat (- m))) k
      else write_digits (digits (nat m)) k)"

fun write_json :: "decimal json \<Rightarrow> jstring"
  and write_elements :: "decimal json list \<Rightarrow> jstring"
  and write_members :: "(jstring \<times> decimal json) list \<Rightarrow> jstring"
  and write_member :: "jstring \<times> decimal json \<Rightarrow> jstring" where
  "write_json JNull = utf16 ''null''"
| "write_json (JBool b) = (if b then utf16 ''true'' else utf16 ''false'')"
| "write_json (JNum x) = write_number x"
| "write_json (JStr s) = quote s"
| "write_json (JArr xs) = utf16 ''['' @ write_elements xs @ utf16 '']''"
| "write_json (JObj ps) = utf16 ''{'' @ write_members ps @ utf16 ''}''"
| "write_elements [] = []"
| "write_elements [x] = write_json x"
| "write_elements (x # y # xs) = write_json x @ utf16 '','' @ write_elements (y # xs)"
| "write_members [] = []"
| "write_members [p] = write_member p"
| "write_members (p # q # ps) = write_member p @ utf16 '','' @ write_members (q # ps)"
| "write_member (k, v) = quote k @ utf16 '':'' @ write_json v"

subsection \<open>Reading\<close>

definition is_ws :: "code_unit \<Rightarrow> bool" where
  "is_ws c = (c = code_of (CHR 0x20) \<or> c = code_of (CHR 0x09) \<or> c = code_of (CHR 0x0A) \<or> c = code_of (CHR 0x0D))"

definition skip_ws :: "jstring \<Rightarrow> jstring" where
  "skip_ws s = dropWhile is_ws s"

definition hex_val :: "code_unit \<Rightarrow> nat option" where
  "hex_val c =
     (let n = unat c in
      if 48 \<le> n \<and> n \<le> 57 then Some (n - 48)
      else if 97 \<le> n \<and> n \<le> 102 then Some (n - 87)
      else if 65 \<le> n \<and> n \<le> 70 then Some (n - 55)
      else None)"

definition unescape :: "code_unit \<Rightarrow> code_unit option" where
  "unescape e =
     (if e = code_of (CHR 0x22) then Some (code_of (CHR 0x22))
      else if e = code_of (CHR 0x5C) then Some (code_of (CHR 0x5C))
      else if e = code_of CHR ''/'' then Some (code_of CHR ''/'')
      else if e = code_of CHR ''b'' then Some (code_of (CHR 0x08))
      else if e = code_of CHR ''f'' then Some (code_of (CHR 0x0C))
      else if e = code_of CHR ''n'' then Some (code_of (CHR 0x0A))
      else if e = code_of CHR ''r'' then Some (code_of (CHR 0x0D))
      else if e = code_of CHR ''t'' then Some (code_of (CHR 0x09))
      else None)"

definition escaped_unit :: "code_unit \<Rightarrow> code_unit \<Rightarrow> code_unit \<Rightarrow> code_unit \<Rightarrow> code_unit option" where
  "escaped_unit h1 h2 h3 h4 =
     (case (hex_val h1, hex_val h2, hex_val h3, hex_val h4) of
        (Some a, Some b, Some c, Some d) \<Rightarrow> Some (of_nat (4096 * a + 256 * b + 16 * c + d))
      | _ \<Rightarrow> None)"

definition cons_unit :: "code_unit \<Rightarrow> (jstring \<times> jstring) option \<Rightarrow> (jstring \<times> jstring) option" where
  "cons_unit c r = (case r of None \<Rightarrow> None | Some (s, rest) \<Rightarrow> Some (c # s, rest))"

text \<open>The code units of a string literal after its opening quote, up to the closing one.\<close>

fun read_units :: "jstring \<Rightarrow> (jstring \<times> jstring) option" where
  "read_units [] = None"
| "read_units (c # r) =
     (if c = code_of (CHR 0x22) then Some ([], r)
      else if c = code_of (CHR 0x5C) then
        (case r of
           [] \<Rightarrow> None
         | e # r1 \<Rightarrow>
             if e = code_of CHR ''u'' then
               (case r1 of
                  h1 # h2 # h3 # h4 # r2 \<Rightarrow>
                    (case escaped_unit h1 h2 h3 h4 of
                       None \<Rightarrow> None
                     | Some u \<Rightarrow> cons_unit u (read_units r2))
                | _ \<Rightarrow> None)
             else
               (case unescape e of
                  None \<Rightarrow> None
                | Some u \<Rightarrow> cons_unit u (read_units r1)))
      else if unat c < 32 then None
      else cons_unit c (read_units r))"

text \<open>
  A number literal: an optional minus sign, a decimal numeral without a leading zero, an
  optional fraction and an optional exponent.
\<close>

definition decimal_of :: "bool \<Rightarrow> jstring \<Rightarrow> int \<Rightarrow> decimal" where
  "decimal_of negative ds e =
     (let m = nat_of_digits ds;
          z = min (length (takeWhile (\<lambda>c. c = digit_unit 0) (rev ds))) (nat (- e)) in
      if m = 0 then Decimal 0 0
      else if 0 \<le> e then Decimal ((if negative then - 1 else 1) * int (m * 10 ^ nat e)) 0
      else Decimal ((if negative then - 1 else 1) * int (m div 10 ^ z)) (nat (- e) - z))"

definition read_fraction :: "jstring \<Rightarrow> (jstring \<times> jstring) option" where
  "read_fraction s =
     (case s of
        [] \<Rightarrow> Some ([], s)
      | c # r \<Rightarrow>
          if c = code_of CHR ''.'' then
            (if takeWhile is_digit r = [] then None
             else Some (takeWhile is_digit r, dropWhile is_digit r))
          else Some ([], s))"

definition read_exponent :: "jstring \<Rightarrow> (int \<times> jstring) option" where
  "read_exponent s =
     (case s of
        [] \<Rightarrow> Some (0, s)
      | c # r \<Rightarrow>
          if c = code_of CHR ''e'' \<or> c = code_of CHR ''E'' then
            (let negative = (r \<noteq> [] \<and> hd r = code_of CHR ''-'');
                 r1 = (if r \<noteq> [] \<and> (hd r = code_of CHR ''-'' \<or> hd r = code_of CHR ''+'') then tl r else r) in
             if takeWhile is_digit r1 = [] then None
             else Some ((if negative then - 1 else 1) * int (nat_of_digits (takeWhile is_digit r1)),
                        dropWhile is_digit r1))
          else Some (0, s))"

definition read_number :: "jstring \<Rightarrow> (decimal json \<times> jstring) option" where
  "read_number s =
     (let negative = (s \<noteq> [] \<and> hd s = code_of CHR ''-'');
          s1 = (if negative then tl s else s);
          ds = takeWhile is_digit s1 in
      if ds = [] \<or> (1 < length ds \<and> hd ds = digit_unit 0) then None
      else
        (case read_fraction (dropWhile is_digit s1) of
           None \<Rightarrow> None
         | Some (fs, s2) \<Rightarrow>
             (case read_exponent s2 of
                None \<Rightarrow> None
              | Some (e, rest) \<Rightarrow> Some (JNum (decimal_of negative (ds @ fs) (e - int (length fs))), rest))))"

definition read_literal :: "jstring \<Rightarrow> decimal json \<Rightarrow> jstring \<Rightarrow> (decimal json \<times> jstring) option" where
  "read_literal word v s =
     (if take (length word) s = word then Some (v, drop (length word) s) else None)"

text \<open>
  The recursive descent over values, array elements and object members. The first
  argument bounds the number of nested calls; \<open>read_json\<close> supplies twice the length of
  the text plus two.
\<close>

fun read_value :: "nat \<Rightarrow> jstring \<Rightarrow> (decimal json \<times> jstring) option"
  and read_elements :: "nat \<Rightarrow> jstring \<Rightarrow> (decimal json list \<times> jstring) option"
  and read_members :: "nat \<Rightarrow> jstring \<Rightarrow> ((jstring \<times> decimal json) list \<times> jstring) option" where
  "read_value 0 s = None"
| "read_value (Suc n) s =
     (case skip_ws s of
        [] \<Rightarrow> None
      | c # r \<Rightarrow>
          if c = code_of CHR ''['' then
            (case skip_ws r of
               [] \<Rightarrow> None
             | d # r1 \<Rightarrow>
                 if d = code_of CHR '']'' then Some (JArr [], r1)
                 else (case read_elements n r of
                         None \<Rightarrow> None
                       | Some (vs, rest) \<Rightarrow> Some (JArr vs, rest)))
          else if c = code_of CHR ''{'' then
            (case skip_ws r of
               [] \<Rightarrow> None
             | d # r1 \<Rightarrow>
                 if d = code_of CHR ''}'' then Some (JObj [], r1)
                 else (case read_members n r of
                         None \<Rightarrow> None
                       | Some (ms, rest) \<Rightarrow> Some (JObj (define_all ms []), rest)))
          else if c = code_of (CHR 0x22) then
            (case read_units r of
               None \<Rightarrow> None
             | Some (str, rest) \<Rightarrow> Some (JStr str, rest))
          else if c = code_of CHR ''t'' then read_literal (utf16 ''true'') (JBool True) (c # r)
          else if c = code_of CHR ''f'' then read_literal (utf16 ''false'') (JBool False) (c # r)
          else if c = code_of CHR ''n'' then read_literal (utf16 ''null'') JNull (c # r)
          else read_number (c # r))"
| "read_elements 0 s = None"
| "read_elements (Suc n) s =
     (case read_value n s of
        None \<Rightarrow> None
      | Some (v, r) \<Rightarrow>
          (case skip_ws r of
             [] \<Rightarrow> None
           | c # r1 \<Rightarrow>
               if c = code_of CHR '','' then
                 (case read_elements n r1 of
                    None \<Rightarrow> None
                  | Some (vs, rest) \<Rightarrow> Some (v # vs, rest))
               else if c = code_of CHR '']'' then Some ([v], r1)
               else None))"
| "read_members 0 s = None"
| "read_members (Suc n) s =
     (case skip_ws s of
        [] \<Rightarrow> None
      | q # r \<Rightarrow>
          if q \<noteq> code_of (CHR 0x22) then None
          else
            (case read_units r of
               None \<Rightarrow> None
             | Some (k, r1) \<Rightarrow>
                 (case skip_ws r1 of
                    [] \<Rightarrow> None
                  | c # r2 \<Rightarrow>
                      if c \<noteq> code_of CHR '':'' then None
                      else
                        (case read_value n r2 of
                           None \<Rightarrow> None
                         | Some (v, r3) \<Rightarrow>
                             (case skip_ws r3 of
                                [] \<Rightarrow> None
                              | d # r4 \<Rightarrow>
                                  if d = code_of CHR '','' then
                                    (case read_members n r4 of
                                       None \<Rightarrow> None
                                     | Some (ms, rest) \<Rightarrow> Some ((k, v) # ms, rest))
                                  else if d = code_of CHR ''}'' then Some ([(k, v)], r4)
                                  else None)))))"

definition read_json :: "jstring \<Rightarrow> decimal json option" where
  "read_json s =
     (case read_value (2 * length s + 2) s of
        None \<Rightarrow> None
      | Some (v, rest) \<Rightarrow> if skip_ws rest = [] then Some v else None)"

definition sample_runtime :: "decimal runtime" where
  "sample_runtime = \<lparr>JSON_parse = read_json, JSON_stringify = write_json\<rparr>"

section \<open>A scripted platform\<close>

text \<open>
  A small platform in the manner of the mocks of the repository's tests, used for the
  concrete instances below: messages are kept in a list, page fetches are answered from a
  script of pages, and the single-message fetch, edit and delete can be set to fail.
\<close>

record fake =
  fake_guilds :: "guild list"
  fake_pages :: "message list list"
  fake_store :: "message list"
  fake_next :: nat
  fetch_error :: "error option"
  edit_error :: "error option"
  delete_error :: "error option"

definition fake_discord :: "fake discord" where
  "fake_discord =
     \<lparr> guilds_cache_get = (\<lambda>gid \<sigma>. find (\<lambda>g. guild_id g = gid) (fake_guilds \<sigma>)),
       channels_create = (\<lambda>g name ty \<sigma>.
         (Inr \<lparr>channel_id = utf16 ''channel-'' @ name, channel_name = name, channel_type = ty\<rparr>, \<sigma>)),
       channel_send = (\<lambda>ch txt \<sigma>.
         (Inr \<lparr>msg_id = utf16 ''message-'' @ digits (fake_next \<sigma>), content = txt\<rparr>,
          \<sigma>\<lparr>fake_store := \<lparr>msg_id = utf16 ''message-'' @ digits (fake_next \<sigma>), content = txt\<rparr>
                            # fake_store \<sigma>,
            fake_next := Suc (fake_next \<sigma>)\<rparr>)),
       messages_fetch = (\<lambda>ch limit before \<sigma>.
         case fake_pages \<sigma> of [] \<Rightarrow> (Inr [], \<sigma>) | p # ps \<Rightarrow> (Inr p, \<sigma>\<lparr>fake_pages := ps\<rparr>)),
       message_fetch = (\<lambda>ch mid \<sigma>.
         case fetch_error \<sigma> of
           Some e \<Rightarrow> (Inl e, \<sigma>)
         | None \<Rightarrow>
             (case find (\<lambda>m. msg_id m = mid) (fake_store \<sigma>) of
                None \<Rightarrow> (Inl (Error (utf16 ''Unknown Message'')), \<sigma>)
              | Some m \<Rightarrow> (Inr m, \<sigma>))),
       message_edit = (\<lambda>m txt \<sigma>.
         case edit_error \<sigma> of
           Some e \<Rightarrow> (Inl e, \<sigma>)
         | None \<Rightarrow>
             (Inr (), \<sigma>\<lparr>fake_store := map (\<lambda>x. if msg_id x = msg_id m then x\<lparr>content := txt\<rparr> else x)
                                    (fake_store \<sigma>)\<rparr>)),
       message_delete = (\<lambda>m \<sigma>.
         case delete_error \<sigma> of
           Some e \<Rightarrow> (Inl e, \<sigma>)
         | None \<Rightarrow> (Inr (), \<sigma>\<lparr>fake_store := filter (\<lambda>x. msg_id x \<noteq> msg_id m) (fake_store \<sigma>)\<rparr>)) \<rparr>"

definition fake_client :: "fake DiscordClient" where
  "fake_client = \<lparr>client = fake_discord, guildId = utf16 ''guild-1''\<rparr>"

definition users_channel :: channel where
  "users_channel =
     \<lparr>channel_id = utf16 ''channel-123'', channel_name = utf16 ''users'', channel_type = GuildText\<rparr>"

definition fake_init :: fake where
  "fake_init =
     \<lparr> fake_guilds = [\<lparr>guild_id = utf16 ''guild-1'', channels_cache = [users_channel]\<rparr>],
       fake_pages = [], fake_store = [], fake_next = 0,
       fetch_error = None, edit_error = None, delete_error = None \<rparr>"

definition page_of :: "nat \<Rightarrow> nat \<Rightarrow> message list" where
  "page_of start n =
     map (\<lambda>i. \<lparr>msg_id = utf16 ''msg-'' @ digits i, content = utf16 ''{}''\<rparr>) [start..<start + n]"

definition test_payload :: "decimal json" where
  "test_payload = JObj [(utf16 ''name'', JStr (utf16 ''Test'')), (utf16 ''age'', JNum (Decimal 30 0))]"

definition test_message :: message where
  "test_message = \<lparr>msg_id = utf16 ''message-123'', content = write_json test_payload\<rparr>"

definition invalid_message :: message where
  "invalid_message = \<lparr>msg_id = utf16 ''message-123'', content = utf16 ''invalid json''\<rparr>"

definition fake_with :: "message list \<Rightarrow> fake" where
  "fake_with ms = fake_init\<lparr>fake_store := ms\<rparr>"

definition fake_failing :: fake where
  "fake_failing =
     (fake_with [test_message])
       \<lparr>edit_error := Some (Error (utf16 ''Edit failed'')),
        delete_error := Some (Error (utf16 ''Delete failed''))\<rparr>"

definition fake_offline :: fake where
  "fake_offline = (fake_with [test_message]) \<lparr>fetch_error := Some (Error (utf16 ''Network error''))\<rparr>"

definition number_message :: message where
  "number_message = \<lparr>msg_id = utf16 ''message-123'', content = utf16 ''42''\<rparr>"

definition fake_paged :: "message list list \<Rightarrow> fake" where
  "fake_paged ps = fake_init\<lparr>fake_pages := ps\<rparr>"

definition alice :: message where
  "alice = \<lparr>msg_id = utf16 ''msg-1'', content = write_json (JObj [(utf16 ''name'', JStr (utf16 ''Alice''))])\<rparr>"

definition broken :: message where
  "broken = \<lparr>msg_id = utf16 ''msg-2'', content = utf16 ''invalid json''\<rparr>"

definition charlie :: message where
  "charlie = \<lparr>msg_id = utf16 ''msg-3'', content = write_json (JObj [(utf16 ''name'', JStr (utf16 ''Charlie''))])\<rparr>"

definition tagged :: "decimal json" where
  "tagged = JObj [(utf16 ''id'', JStr (utf16 ''x'')), (utf16 ''a'', JNum (Decimal 1 0))]"

definition fake_used :: fake where
  "fake_used = fake_init\<lparr>fake_next := 7\<rparr>"

definition tagged_message :: message where
  "tagged_message = \<lparr>msg_id = utf16 ''message-123'', content = write_json tagged\<rparr>"

section \<open>Decimal numerals\<close>

lemma unat_digit_unit: "d < 10 \<Longrightarrow> unat (digit_unit d) = 48 + d"
  unfolding digit_unit_def unat_of_nat by simp

lemma digit_val_digit_unit: "d < 10 \<Longrightarrow> digit_val (digit_unit d) = d"
  by (simp add: digit_val_def unat_digit_unit)

lemma is_digit_digit_unit: "d < 10 \<Longrightarrow> is_digit (digit_unit d)"
  by (simp add: is_digit_def unat_digit_unit)

lemma digit_unit_digit_val: "is_digit c \<Longrightarrow> digit_unit (digit_val c) = c"
  by (simp add: is_digit_def digit_unit_def digit_val_def)

lemma digit_val_zero: "is_digit c \<Longrightarrow> digit_val c = 0 \<Longrightarrow> c = digit_unit 0"
  using digit_unit_digit_val [of c] by simp

lemma digits_nonempty: "digits n \<noteq> []"
  by (subst digits.simps) simp

lemma digits_all: "c \<in> set (digits n) \<Longrightarrow> is_digit c"
proof (induction n rule: digits.induct)
  case (1 n)
  show ?case
  proof (cases "n < 10")
    case True
    with "1.prems" show ?thesis
      by (subst (asm) digits.simps) (simp add: is_digit_digit_unit)
  next
    case False
    with "1.prems" "1.IH" show ?thesis
      by (subst (asm) digits.simps) (auto simp: is_digit_digit_unit)
  qed
qed

lemma nat_of_digits_snoc: "nat_of_digits (ds @ [c]) = 10 * nat_of_digits ds + digit_val c"
  by (simp add: nat_of_digits_def)

lemma nat_of_digits_digits: "nat_of_digits (digits n) = n"
proof (induction n rule: digits.induct)
  case (1 n)
  show ?case
  proof (cases "n < 10")
    case True
    then show ?thesis
      by (subst digits.simps) (simp add: nat_of_digits_def digit_val_digit_unit)
  next
    case False
    with "1.IH" show ?thesis
      by (subst digits.simps) (simp add: nat_of_digits_snoc digit_val_digit_unit)
  qed
qed

lemma hd_digits: "0 < n \<Longrightarrow> hd (digits n) \<noteq> digit_unit 0"
proof (induction n rule: digits.induct)
  case (1 n)
  show ?case
  proof (cases "n < 10")
    case True
    then have "digit_val (digit_unit n) = n" by (rule digit_val_digit_unit)
    moreover have "digit_val (digit_unit 0) = 0" by (simp add: digit_val_digit_unit)
    ultimately have "digit_unit n \<noteq> digit_unit 0" using "1.prems" by auto
    with True show ?thesis
      by (subst digits.simps) simp
  next
    case False
    with "1.IH" show ?thesis
      by (subst digits.simps) (simp add: digits_nonempty)
  qed
qed

lemma digits_zero: "digits 0 = [digit_unit 0]"
  by (subst digits.simps) simp

lemma canonical_digits: "canonical_numeral (digits n)"
proof (cases "n = 0")
  case True
  then show ?thesis
    by (simp add: canonical_numeral_def digits_zero is_digit_digit_unit)
next
  case False
  then show ?thesis
    by (simp add: canonical_numeral_def digits_nonempty hd_digits list_all_iff digits_all)
qed

lemma nat_of_digits_pos:
  "ds \<noteq> [] \<Longrightarrow> list_all is_digit ds \<Longrightarrow> hd ds \<noteq> digit_unit 0 \<Longrightarrow> 0 < nat_of_digits ds"
proof (induction ds rule: rev_induct)
  case Nil
  then show ?case by simp
next
  case (snoc c ds)
  show ?case
  proof (cases "ds = []")
    case True
    with snoc.prems have "is_digit c" "c \<noteq> digit_unit 0" by simp_all
    then have "digit_val c \<noteq> 0" using digit_val_zero by blast
    then have "0 < digit_val c" by simp
    with True show ?thesis by (simp add: nat_of_digits_def)
  next
    case False
    with snoc have "0 < nat_of_digits ds" by simp
    then show ?thesis by (simp add: nat_of_digits_snoc)
  qed
qed

lemma digits_nat_of_digits: "canonical_numeral ds \<Longrightarrow> digits (nat_of_digits ds) = ds"
proof -
  have "ds \<noteq> [] \<Longrightarrow> list_all is_digit ds \<Longrightarrow> ds = [digit_unit 0] \<or> hd ds \<noteq> digit_unit 0
          \<Longrightarrow> digits (nat_of_digits ds) = ds"
  proof (induction ds rule: rev_induct)
    case Nil
    then show ?case by simp
  next
    case (snoc c ds)
    from snoc.prems have c: "is_digit c" by simp
    then have dv: "digit_val c < 10" by (auto simp: is_digit_def digit_val_def)
    show ?case
    proof (cases "ds = []")
      case True
      with c dv show ?thesis
        by (subst digits.simps) (simp add: nat_of_digits_def digit_unit_digit_val)
    next
      case False
      with snoc.prems have hd: "hd ds \<noteq> digit_unit 0" and all: "list_all is_digit ds" by auto
      with False have pos: "0 < nat_of_digits ds" by (simp add: nat_of_digits_pos)
      from snoc.IH False all hd have ih: "digits (nat_of_digits ds) = ds" by simp
      from pos dv have "\<not> 10 * nat_of_digits ds + digit_val c < 10" by simp
      moreover from dv have "(10 * nat_of_digits ds + digit_val c) div 10 = nat_of_digits ds"
        "(10 * nat_of_digits ds + digit_val c) mod 10 = digit_val c" by simp_all
      ultimately show ?thesis using ih c
        by (subst digits.simps) (simp add: nat_of_digits_snoc digit_unit_digit_val)
    qed
  qed
  then show "canonical_numeral ds \<Longrightarrow> digits (nat_of_digits ds) = ds"
    by (simp add: canonical_numeral_def)
qed

lemma digits_inj: "digits a = digits b \<Longrightarrow> a = b"
  by (metis nat_of_digits_digits)

section \<open>Properties of objects\<close>

lemma obj_get_Nil [simp]: "obj_get [] k = None"
  by (simp add: obj_get_def)

lemma obj_get_Cons [simp]:
  "obj_get (p # ps) k = (if k = fst p then Some (snd p) else obj_get ps k)"
  by (cases p) (simp add: obj_get_def)

lemma obj_get_None_iff: "obj_get ps k = None \<longleftrightarrow> k \<notin> fst ` set ps"
  by (simp add: obj_get_def map_of_eq_None_iff)

lemma obj_get_snoc:
  "obj_get (ps @ [(k, v)]) k' = (case obj_get ps k' of Some w \<Rightarrow> Some w | None \<Rightarrow> if k' = k then Some v else None)"
  by (induction ps) auto

lemma obj_get_insert_index:
  "k \<notin> fst ` set ps \<Longrightarrow>
     obj_get (insert_index i k v ps) k' = (if k' = k then Some v else obj_get ps k')"
  by (induction ps) (auto split: option.splits)

lemma obj_get_replace_other:
  "k' \<noteq> k \<Longrightarrow> obj_get (map (\<lambda>p. if fst p = k then (k, v) else p) ps) k' = obj_get ps k'"
  by (induction ps) auto

lemma obj_get_replace_same:
  "k \<in> fst ` set ps \<Longrightarrow> obj_get (map (\<lambda>p. if fst p = k then (k, v) else p) ps) k = Some v"
  by (induction ps) auto

lemma obj_get_obj_set: "obj_get (obj_set k v ps) k' = (if k' = k then Some v else obj_get ps k')"
proof (cases "k \<in> fst ` set ps")
  case True
  then show ?thesis by (simp add: obj_set_def obj_get_replace_other obj_get_replace_same)
next
  case False
  then have none: "obj_get ps k = None" by (simp add: obj_get_None_iff)
  show ?thesis
  proof (cases "array_index k")
    case None
    with False none show ?thesis
      by (auto simp: obj_set_def obj_get_snoc split: option.splits)
  next
    case (Some i)
    with False show ?thesis by (simp add: obj_set_def obj_get_insert_index)
  qed
qed

lemma define_all_Cons:
  "define_all (p # props) t = define_all props (obj_set (fst p) (snd p) t)"
  by (simp add: define_all_def)

lemma obj_get_define_all_other:
  "k \<notin> fst ` set props \<Longrightarrow> obj_get (define_all props t) k = obj_get t k"
  by (induction props arbitrary: t) (auto simp: define_all_def obj_get_obj_set)

lemma obj_get_define_all:
  "distinct (map fst props) \<Longrightarrow>
     obj_get (define_all props t) k
       = (case obj_get props k of Some v \<Rightarrow> Some v | None \<Rightarrow> obj_get t k)"
proof (induction props arbitrary: t)
  case Nil
  then show ?case by (simp add: define_all_def)
next
  case (Cons p props)
  show ?case
  proof (cases "k = fst p")
    case True
    with Cons.prems have "k \<notin> fst ` set props" by auto
    with True show ?thesis
      by (simp add: define_all_Cons obj_get_define_all_other obj_get_obj_set)
  next
    case False
    with Cons show ?thesis
      by (simp add: define_all_Cons obj_get_obj_set split: option.splits)
  qed
qed

subsection \<open>The properties that a spread copies\<close>

lemma distinct_numerals: "distinct (map digits [0..<n])"
  by (simp add: distinct_map inj_on_def) (blast dest: digits_inj)

lemma obj_get_indexed:
  assumes "length ys = n"
  shows "obj_get (zip (map digits [0..<n]) ys) k
           = (if canonical_numeral k \<and> nat_of_digits k < n then Some (ys ! nat_of_digits k) else None)"
proof (cases "canonical_numeral k \<and> nat_of_digits k < n")
  case True
  then have k: "k = map digits [0..<n] ! nat_of_digits k"
    by (simp add: digits_nat_of_digits)
  from True assms have "map_of (zip (map digits [0..<n]) ys) (map digits [0..<n] ! nat_of_digits k)
                          = Some (ys ! nat_of_digits k)"
    by (intro map_of_zip_nth) (simp_all add: distinct_numerals)
  with k True show ?thesis by (simp add: obj_get_def)
next
  case False
  have "k \<notin> set (map digits [0..<n])"
  proof
    assume "k \<in> set (map digits [0..<n])"
    then obtain i where "i < n" "k = digits i" by auto
    with False show False by (simp add: canonical_digits nat_of_digits_digits)
  qed
  with assms have "map_of (zip (map digits [0..<n]) ys) k = None"
    by (simp add: map_of_zip_is_None)
  with False show ?thesis by (simp add: obj_get_def)
qed

lemma obj_get_own_props: "obj_get (own_props v) k = own_property v k"
  by (cases v) (simp_all add: obj_get_indexed)

lemma distinct_own_props: "distinct_keys v \<Longrightarrow> distinct (map fst (own_props v))"
  by (cases v) (simp_all add: distinct_numerals)

lemma own_property_merged:
  assumes "distinct_keys E" "distinct_keys D"
  shows "own_property (merged E D) k
           = (case own_property D k of Some v \<Rightarrow> Some v | None \<Rightarrow> own_property E k)"
  using assms
  by (simp add: merged_def spread_def obj_get_define_all distinct_own_props obj_get_own_props
        split: option.splits)

lemma own_property_document:
  assumes "distinct_keys E"
  shows "own_property (document mid E) k
           = (case own_property E k of
                Some v \<Rightarrow> Some v
              | None \<Rightarrow> if k = utf16 ''id'' then Some (JStr mid) else None)"
  using assms
  by (simp add: document_def spread_def obj_get_define_all distinct_own_props obj_get_own_props
        split: option.splits)

lemma document_scalar: "scalar v \<Longrightarrow> document mid v = JObj [(utf16 ''id'', JStr mid)]"
  by (cases v) (simp_all add: document_def spread_def define_all_def)

section \<open>The page loop of \<open>findAll\<close>\<close>

lemma invoke_pair [simp]:
  "invoke c f (\<sigma>, tr) = (case f \<sigma> of (r, \<sigma>') \<Rightarrow> (r, (\<sigma>', tr @ [c])))"
  by (simp add: invoke_def)

lemma collect_documents_append:
  "collect_documents rt (xs @ ys) results = collect_documents rt ys (collect_documents rt xs results)"
  by (induction xs arbitrary: results) (auto split: option.splits)

lemma collect_documents_eq:
  "collect_documents rt ms results =
     results @ map (\<lambda>m. document (msg_id m) (the (JSON_parse rt (content m))))
                 (filter (\<lambda>m. JSON_parse rt (content m) \<noteq> None) ms)"
  by (induction ms arbitrary: results) (auto split: option.splits)

lemma findAll_loop_served:
  assumes "served dc ch cursor \<sigma> pages = Some \<sigma>'"
    and "pages \<noteq> []"
    and "\<forall>p\<in>set (butlast pages). 100 \<le> length p"
    and "length (last pages) < 100"
  shows "findAll_loop rt dc ch cursor results (\<sigma>, tr) =
           Some (Inr (collect_documents rt (concat pages) results),
                 (\<sigma>', tr @ fetch_calls ch cursor pages))"
  using assms
proof (induction pages arbitrary: cursor \<sigma> results tr)
  case Nil
  then show ?case by simp
next
  case (Cons p ps)
  from Cons.prems(1) obtain \<sigma>1 where f: "fetchMessages dc ch cursor \<sigma> = (Inr p, \<sigma>1)"
    and rest: "served dc ch (Some (msg_id (last p))) \<sigma>1 ps = Some \<sigma>'"
    by (auto split: prod.splits sum.splits if_splits)
  show ?case
  proof (cases "ps = []")
    case True
    with Cons.prems(4) have short: "length p < 100" by simp
    from True rest have "\<sigma>1 = \<sigma>'" by simp
    with f short True show ?thesis
      by (subst findAll_loop.simps) (cases p; simp)
  next
    case False
    with Cons.prems(3) have long: "100 \<le> length p" by simp
    from False Cons.prems(3,4) have
      "\<forall>q\<in>set (butlast ps). 100 \<le> length q" "length (last ps) < 100" by simp_all
    from Cons.IH [OF rest False this]
    have "findAll_loop rt dc ch (Some (msg_id (last p))) (collect_documents rt p results)
            (\<sigma>1, tr @ [FetchMessages ch cursor]) =
          Some (Inr (collect_documents rt (concat ps) (collect_documents rt p results)),
                (\<sigma>', (tr @ [FetchMessages ch cursor]) @ fetch_calls ch (Some (msg_id (last p))) ps))" .
    moreover from long have "p \<noteq> []" by auto
    ultimately show ?thesis using f long
      by (subst findAll_loop.simps) (simp add: collect_documents_append)
  qed
qed

section \<open>Facts about the runtime of the examples and the scripted platform\<close>

lemma sample_parse [simp]: "JSON_parse sample_runtime = read_json"
  and sample_stringify [simp]: "JSON_stringify sample_runtime = write_json"
  by (simp_all add: sample_runtime_def)

lemma read_invalid: "read_json (utf16 ''invalid json'') = None"
  by code_simp

lemma read_test: "read_json (content test_message) = Some test_payload"
  by code_simp

lemma read_number: "read_json (utf16 ''42'') = Some (JNum (Decimal 42 0))"
  by code_simp

lemma read_alice: "read_json (content alice) = Some (JObj [(utf16 ''name'', JStr (utf16 ''Alice''))])"
  by code_simp

lemma read_charlie: "read_json (content charlie) = Some (JObj [(utf16 ''name'', JStr (utf16 ''Charlie''))])"
  by code_simp

lemma read_broken: "read_json (content broken) = None"
  by code_simp

lemma read_tagged: "read_json (write_json tagged) = Some tagged"
  by code_simp

lemma read_empty: "read_json (utf16 ''{}'') = Some (JObj [])"
  by code_simp

lemma digits_99: "digits 99 = utf16 ''99''" and digits_199: "digits 199 = utf16 ''199''"
  and digits_7: "digits 7 = utf16 ''7''"
  by code_simp+

lemma document_alice:
  "document (utf16 ''msg-1'') (JObj [(utf16 ''name'', JStr (utf16 ''Alice''))] :: decimal json)
     = JObj [(utf16 ''id'', JStr (utf16 ''msg-1'')), (utf16 ''name'', JStr (utf16 ''Alice''))]"
  by code_simp

lemma document_charlie:
  "document (utf16 ''msg-3'') (JObj [(utf16 ''name'', JStr (utf16 ''Charlie''))] :: decimal json)
     = JObj [(utf16 ''id'', JStr (utf16 ''msg-3'')), (utf16 ''name'', JStr (utf16 ''Charlie''))]"
  by code_simp

lemma document_tagged:
  "document (utf16 ''message-7'') tagged = tagged"
  "document (utf16 ''message-123'') tagged = tagged"
  by code_simp+

lemma merged_test:
  "merged test_payload (JObj [(utf16 ''age'', JNum (Decimal 31 0))])
     = JObj [(utf16 ''name'', JStr (utf16 ''Test'')), (utf16 ''age'', JNum (Decimal 31 0))]"
  by code_simp

lemma merged_examples:
  "merged (JObj [(utf16 ''a'', x), (utf16 ''b'', y)]) (JObj [(utf16 ''b'', z)])
     = JObj [(utf16 ''a'', x), (utf16 ''b'', z)]"
  "merged (JObj [(utf16 ''u'', JObj [(utf16 ''x'', p), (utf16 ''y'', q)])])
          (JObj [(utf16 ''u'', JObj [(utf16 ''x'', r)])])
     = JObj [(utf16 ''u'', JObj [(utf16 ''x'', r)])]"
  by (simp_all add: merged_def spread_def define_all_def obj_set_def utf16_def code_of_def
        array_index_def canonical_numeral_def is_digit_def)

lemma document_fresh_id:
  assumes "own_property E (utf16 ''id'') = None"
  shows "own_property (document mid E) (utf16 ''id'') = Some (JStr mid)"
proof -
  from assms have "utf16 ''id'' \<notin> fst ` set (own_props E)"
    by (simp add: obj_get_own_props [symmetric] obj_get_None_iff)
  then show ?thesis
    by (simp add: document_def spread_def obj_get_define_all_other)
qed

lemma merged_keeps_data:
  assumes "distinct_keys D" "own_property D k = Some v"
  shows "own_property (merged E D) k = Some v"
  using assms
  by (simp add: merged_def spread_def obj_get_define_all distinct_own_props obj_get_own_props)

lemmas fake_defs =
  fake_client_def fake_discord_def fake_with_def fake_init_def users_channel_def
  resolveCollectionChannel_def getGuild_def sendMessage_def fetchMessages_def
  fetchMessageById_def editMessage_def deleteMessage_def

lemma fake_resolve:
  "fake_guilds \<sigma> = fake_guilds fake_init
     \<Longrightarrow> resolveCollectionChannel fake_client (utf16 ''users'') \<sigma> = (Inr users_channel, \<sigma>)"
  by (simp add: fake_defs)

lemma fake_resolve_users:
  "resolveCollectionChannel fake_client (utf16 ''users'') (fake_with ms) = (Inr users_channel, fake_with ms)"
  by (rule fake_resolve) (simp add: fake_with_def)

lemma fake_fetch_absent:
  "fetchMessageById fake_client users_channel mid (fake_with []) = (Inr None, fake_with [])"
  by (simp add: fake_defs)

lemma fake_fetch_present:
  "fetchMessageById fake_client users_channel (msg_id m) (fake_with [m]) = (Inr (Some m), fake_with [m])"
  by (simp add: fake_defs)

lemma fake_fetch:
  "fetch_error \<sigma> = None \<Longrightarrow> find (\<lambda>x. msg_id x = mid) (fake_store \<sigma>) = Some m
     \<Longrightarrow> fetchMessageById fake_client ch mid \<sigma> = (Inr (Some m), \<sigma>)"
  by (simp add: fake_defs)

lemma fake_fetchMessages:
  "fetchMessages fake_client ch cursor (fake_paged (p # ps)) = (Inr p, fake_paged ps)"
  by (simp add: fake_defs fake_paged_def)

lemma fake_paged_resolve:
  "resolveCollectionChannel fake_client (utf16 ''users'') (fake_paged ps) = (Inr users_channel, fake_paged ps)"
  by (rule fake_resolve) (simp add: fake_paged_def)

lemma length_page_of: "length (page_of start n) = n"
  by (simp add: page_of_def)

lemma last_page_of:
  "0 < n \<Longrightarrow> msg_id (last (page_of start n)) = utf16 ''msg-'' @ digits (start + n - 1)"
  by (simp add: page_of_def last_map)

lemma read_page_of: "m \<in> set (page_of start n) \<Longrightarrow> read_json (content m) = Some (JObj [])"
  by (auto simp: page_of_def read_empty)

lemma filter_page_of:
  "filter (\<lambda>m. read_json (content m) \<noteq> None) (page_of start n) = page_of start n"
  "filter (\<lambda>m. \<exists>y. read_json (content m) = Some y) (page_of start n) = page_of start n"
  using read_page_of [of _ start n] by (auto simp: filter_id_conv)

lemma fake_edit:
  "editMessage fake_client m t (fake_with [m]) = (Inr (), fake_with [m\<lparr>content := t\<rparr>])"
  by (simp add: fake_defs)

lemma fake_send:
  "channel_send (client fake_client) ch t (fake_with [])
     = (Inr \<lparr>msg_id = utf16 ''message-0'', content = t\<rparr>,
        fake_with [\<lparr>msg_id = utf16 ''message-0'', content = t\<rparr>]\<lparr>fake_next := Suc 0\<rparr>)"
  by (simp add: fake_defs digits_zero) (simp add: utf16_def code_of_def digit_unit_def)

lemma fake_present:
  "fetchMessageById fake_client users_channel (utf16 ''message-123'') (fake_with [test_message])
     = (Inr (Some test_message), fake_with [test_message])"
  "fetchMessageById fake_client users_channel (utf16 ''message-123'') (fake_with [invalid_message])
     = (Inr (Some invalid_message), fake_with [invalid_message])"
  "fetchMessageById fake_client users_channel (utf16 ''message-123'') (fake_with [number_message])
     = (Inr (Some number_message), fake_with [number_message])"
  "fetchMessageById fake_client users_channel (utf16 ''message-123'') (fake_with [tagged_message])
     = (Inr (Some tagged_message), fake_with [tagged_message])"
  using fake_fetch_present [of test_message] fake_fetch_present [of invalid_message]
    fake_fetch_present [of number_message] fake_fetch_present [of tagged_message]
  by (simp_all add: test_message_def invalid_message_def number_message_def tagged_message_def)

lemma own_property_examples:
  "own_property tagged (utf16 ''id'') = Some (JStr (utf16 ''x''))"
  "own_property test_payload (utf16 ''id'') = None"
  "distinct_keys tagged"
  "distinct_keys test_payload"
  "distinct_keys (JObj [(utf16 ''age'', JNum (Decimal 31 0))])"
  by (simp_all add: tagged_def test_payload_def utf16_def code_of_def)

section \<open>The claims\<close>

text \<open>
  C1 (insert, then findById) fails on the code for a payload that has a property \<open>id\<close>
  of its own. On a platform that has handed out seven message ids before, \<open>insert\<close> of
  \<open>{ id: 'x', a: 1 }\<close> sends the envelope and returns the id \<open>message-7\<close> of the new
  message; \<open>findById\<close> of \<open>message-7\<close> then returns \<open>{ id: 'x', a: 1 }\<close> and not the
  payload with \<open>id\<close> bound to \<open>message-7\<close>: in \<open>{ id: message.id, ...data }\<close> the spread
  comes after \<open>id\<close> and overrides it.
\<close>

theorem insert_findById_id_overridden:
  "insert_doc sample_runtime fake_client (utf16 ''users'') tagged (fake_used, [])
     = (Inr (utf16 ''message-7''),
        (fake_used\<lparr>fake_store := [\<lparr>msg_id = utf16 ''message-7'', content = write_json tagged\<rparr>],
                   fake_next := 8\<rparr>,
         [ResolveCollectionChannel (utf16 ''users''), SendMessage users_channel (write_json tagged)]))
   \<and> fst (findById sample_runtime fake_client (utf16 ''users'') (utf16 ''message-7'')
             (snd (insert_doc sample_runtime fake_client (utf16 ''users'') tagged (fake_used, []))))
       = Inr (Some (JObj [(utf16 ''id'', JStr (utf16 ''x'')), (utf16 ''a'', JNum (Decimal 1 0))]))
   \<and> JObj [(utf16 ''id'', JStr (utf16 ''x'')), (utf16 ''a'', JNum (Decimal 1 0))]
       \<noteq> (JObj [(utf16 ''id'', JStr (utf16 ''message-7'')), (utf16 ''a'', JNum (Decimal 1 0))] :: decimal json)"
proof -
  let ?m = "\<lparr>msg_id = utf16 ''message-7'', content = write_json tagged\<rparr>"
  let ?\<sigma> = "fake_used\<lparr>fake_store := [?m], fake_next := 8\<rparr>"
  have ins: "insert_doc sample_runtime fake_client (utf16 ''users'') tagged (fake_used, [])
     = (Inr (utf16 ''message-7''),
        (?\<sigma>, [ResolveCollectionChannel (utf16 ''users''), SendMessage users_channel (write_json tagged)]))"
    by (simp add: insert_doc_def fake_defs fake_used_def digits_7) (simp add: utf16_def)
  have res: "resolveCollectionChannel fake_client (utf16 ''users'') ?\<sigma> = (Inr users_channel, ?\<sigma>)"
    by (rule fake_resolve) (simp add: fake_used_def)
  have fetch: "fetchMessageById fake_client users_channel (utf16 ''message-7'') ?\<sigma> = (Inr (Some ?m), ?\<sigma>)"
    by (rule fake_fetch) (simp_all add: fake_used_def fake_init_def)
  have "fst (findById sample_runtime fake_client (utf16 ''users'') (utf16 ''message-7'')
               (?\<sigma>, [ResolveCollectionChannel (utf16 ''users''),
                     SendMessage users_channel (write_json tagged)]))
          = Inr (Some tagged)"
    by (simp add: findById_def res fetch read_tagged document_tagged)
  with ins show ?thesis
    by (simp add: tagged_def) (simp add: utf16_def code_of_def)
qed

text \<open>
  C2 does not hold as stated. Inserting \<open>{ id: 'x', a: 1 }\<close> sends an envelope from which
  the key \<open>id\<close> has not been removed: the text parses back to the whole payload. And for
  a stored message \<open>message-123\<close> with this envelope, \<open>findById\<close> and the page loop of
  \<open>findAll\<close> return a document whose \<open>id\<close> is \<open>'x'\<close>, not the id of the message.
\<close>

theorem id_separation_counterexample:
  "snd (snd (insert_doc sample_runtime fake_client (utf16 ''users'') tagged (fake_with [], [])))
     = [ResolveCollectionChannel (utf16 ''users''), SendMessage users_channel (write_json tagged)]
   \<and> read_json (write_json tagged) = Some tagged
   \<and> own_property tagged (utf16 ''id'') = Some (JStr (utf16 ''x''))
   \<and> fst (findById sample_runtime fake_client (utf16 ''users'') (utf16 ''message-123'')
             (fake_with [tagged_message], []))
       = Inr (Some tagged)
   \<and> collect_documents sample_runtime [tagged_message] [] = [tagged]
   \<and> JStr (utf16 ''x'') \<noteq> (JStr (msg_id tagged_message) :: decimal json)"
proof -
  have 1: "snd (snd (insert_doc sample_runtime fake_client (utf16 ''users'') tagged (fake_with [], [])))
     = [ResolveCollectionChannel (utf16 ''users''), SendMessage users_channel (write_json tagged)]"
    by (simp add: insert_doc_def fake_resolve_users sendMessage_def fake_send)
  have 4: "fst (findById sample_runtime fake_client (utf16 ''users'') (utf16 ''message-123'')
             (fake_with [tagged_message], []))
       = Inr (Some tagged)"
    by (simp add: findById_def fake_resolve_users fake_present)
      (simp add: tagged_message_def read_tagged document_tagged)
  have 5: "collect_documents sample_runtime [tagged_message] [] = [tagged]"
    by (simp add: tagged_message_def read_tagged document_tagged)
  have 6: "JStr (utf16 ''x'') \<noteq> (JStr (msg_id tagged_message) :: decimal json)"
    by (simp add: tagged_message_def utf16_def)
  from 1 4 5 6 show ?thesis
    by (simp add: read_tagged own_property_examples)
qed

text \<open>
  C2, as amended. On a write the payload goes to the wire as it is given, no property
  being removed: \<open>insert\<close> sends \<open>JSON.stringify\<close> of \<open>data\<close> itself and returns the id of
  the message that was created, and \<open>update\<close> sends \<open>JSON.stringify\<close> of the merge of the
  stored payload with \<open>data\<close>, in which every own property of \<open>data\<close> is present with its
  value. On a read of a message whose payload has no property \<open>id\<close> of its own,
  \<open>findById\<close> and the page loop of \<open>findAll\<close> return a document whose \<open>id\<close> is the id of
  the message. Nothing is said here about the \<open>id\<close> of the document when the payload has
  an \<open>id\<close> of its own.
\<close>

theorem id_separation_amended:
  assumes "resolveCollectionChannel dc c \<sigma>0 = (Inr ch, \<sigma>1)"
  shows "(channel_send (client dc) ch (JSON_stringify rt data) \<sigma>1 = (Inr sent, \<sigma>2) \<longrightarrow>
            insert_doc rt dc c data (\<sigma>0, tr)
              = (Inr (msg_id sent),
                 (\<sigma>2, tr @ [ResolveCollectionChannel c, SendMessage ch (JSON_stringify rt data)])))
       \<and> (fetchMessageById dc ch mid \<sigma>1 = (Inr (Some m), \<sigma>2) \<and> JSON_parse rt (content m) = Some E \<longrightarrow>
            snd (snd (update rt dc c mid data (\<sigma>0, tr)))
              = tr @ [ResolveCollectionChannel c, FetchMessageById ch mid,
                      EditMessage m (JSON_stringify rt (merged E data))])
       \<and> (distinct_keys data \<longrightarrow>
            (\<forall>k v. own_property data k = Some v \<longrightarrow> own_property (merged E data) k = Some v))
       \<and> (fetchMessageById dc ch mid \<sigma>1 = (Inr (Some m), \<sigma>2) \<and> JSON_parse rt (content m) = Some E
            \<and> own_property E (utf16 ''id'') = None \<longrightarrow>
            (\<exists>doc. findById rt dc c mid (\<sigma>0, tr)
                      = (Inr (Some doc), (\<sigma>2, tr @ [ResolveCollectionChannel c, FetchMessageById ch mid]))
                  \<and> own_property doc (utf16 ''id'') = Some (JStr (msg_id m))))
       \<and> (JSON_parse rt (content m) = Some E \<and> own_property E (utf16 ''id'') = None \<longrightarrow>
            (\<exists>doc. collect_documents rt [m] results = results @ [doc]
                  \<and> own_property doc (utf16 ''id'') = Some (JStr (msg_id m))))"
proof -
  from assms have 1: "channel_send (client dc) ch (JSON_stringify rt data) \<sigma>1 = (Inr sent, \<sigma>2) \<longrightarrow>
            insert_doc rt dc c data (\<sigma>0, tr)
              = (Inr (msg_id sent),
                 (\<sigma>2, tr @ [ResolveCollectionChannel c, SendMessage ch (JSON_stringify rt data)]))"
    by (simp add: insert_doc_def sendMessage_def)
  from assms have 2: "fetchMessageById dc ch mid \<sigma>1 = (Inr (Some m), \<sigma>2)
            \<and> JSON_parse rt (content m) = Some E \<longrightarrow>
            snd (snd (update rt dc c mid data (\<sigma>0, tr)))
              = tr @ [ResolveCollectionChannel c, FetchMessageById ch mid,
                      EditMessage m (JSON_stringify rt (merged E data))]"
    by (simp add: update_def split: prod.splits sum.splits)
  have 3: "distinct_keys data \<longrightarrow>
            (\<forall>k v. own_property data k = Some v \<longrightarrow> own_property (merged E data) k = Some v)"
    using merged_keeps_data by blast
  from assms have 4: "fetchMessageById dc ch mid \<sigma>1 = (Inr (Some m), \<sigma>2)
            \<and> JSON_parse rt (content m) = Some E
            \<and> own_property E (utf16 ''id'') = None \<longrightarrow>
            (\<exists>doc. findById rt dc c mid (\<sigma>0, tr)
                      = (Inr (Some doc), (\<sigma>2, tr @ [ResolveCollectionChannel c, FetchMessageById ch mid]))
                  \<and> own_property doc (utf16 ''id'') = Some (JStr (msg_id m)))"
    by (simp add: findById_def document_fresh_id)
  have 5: "JSON_parse rt (content m) = Some E \<and> own_property E (utf16 ''id'') = None \<longrightarrow>
            (\<exists>doc. collect_documents rt [m] results = results @ [doc]
                  \<and> own_property doc (utf16 ''id'') = Some (JStr (msg_id m)))"
    by (simp add: document_fresh_id)
  from 1 2 3 4 5 show ?thesis by blast
qed

text \<open>
  An instance: the stored payload \<open>{ name: 'Test', age: 30 }\<close> has no \<open>id\<close>, and the
  payload written is \<open>{ id: 'x', a: 1 }\<close>.
\<close>

theorem id_separation_amended_witness:
  "insert_doc sample_runtime fake_client (utf16 ''users'') tagged (fake_with [], [])
     = (Inr (utf16 ''message-0''),
        (fake_with [\<lparr>msg_id = utf16 ''message-0'', content = write_json tagged\<rparr>]\<lparr>fake_next := Suc 0\<rparr>,
         [ResolveCollectionChannel (utf16 ''users''), SendMessage users_channel (write_json tagged)]))
   \<and> snd (snd (update sample_runtime fake_client (utf16 ''users'') (utf16 ''message-123'') tagged
                 (fake_with [test_message], [])))
     = [ResolveCollectionChannel (utf16 ''users''),
        FetchMessageById users_channel (utf16 ''message-123''),
        EditMessage test_message (write_json (merged test_payload tagged))]
   \<and> own_property (merged test_payload tagged) (utf16 ''id'') = Some (JStr (utf16 ''x''))
   \<and> (\<exists>doc. findById sample_runtime fake_client (utf16 ''users'') (utf16 ''message-123'')
               (fake_with [test_message], [])
             = (Inr (Some doc),
                (fake_with [test_message],
                 [ResolveCollectionChannel (utf16 ''users''),
                  FetchMessageById users_channel (utf16 ''message-123'')]))
           \<and> own_property doc (utf16 ''id'') = Some (JStr (utf16 ''message-123'')))
   \<and> (\<exists>doc. collect_documents sample_runtime [test_message] [] = [doc]
           \<and> own_property doc (utf16 ''id'') = Some (JStr (utf16 ''message-123'')))"
proof -
  have parse: "JSON_parse sample_runtime (content test_message) = Some test_payload"
    by (simp add: read_test)
  have send: "channel_send (client fake_client) users_channel (JSON_stringify sample_runtime tagged)
                (fake_with [])
     = (Inr \<lparr>msg_id = utf16 ''message-0'', content = write_json tagged\<rparr>,
        fake_with [\<lparr>msg_id = utf16 ''message-0'', content = write_json tagged\<rparr>]\<lparr>fake_next := Suc 0\<rparr>)"
    by (simp add: fake_send)
  note ins = id_separation_amended [OF fake_resolve_users [of "[]"], where rt = sample_runtime
      and tr = "[]" and data = tagged, THEN conjunct1, rule_format, OF send]
  note inst = id_separation_amended [OF fake_resolve_users [of "[test_message]"],
      where rt = sample_runtime and tr = "[]" and data = tagged and results = "[]"
      and E = test_payload and m = test_message]
  note upd = inst [THEN conjunct2, THEN conjunct1, rule_format, OF conjI [OF fake_present(1) parse]]
  note keep = inst [THEN conjunct2, THEN conjunct2, THEN conjunct1, rule_format,
      OF own_property_examples(3) own_property_examples(1)]
  note one = inst [THEN conjunct2, THEN conjunct2, THEN conjunct2, THEN conjunct1, rule_format,
      OF conjI [OF fake_present(1) conjI [OF parse own_property_examples(2)]]]
  note all = inst [THEN conjunct2, THEN conjunct2, THEN conjunct2, THEN conjunct2, rule_format,
      OF conjI [OF parse own_property_examples(2)]]
  have mid: "msg_id test_message = utf16 ''message-123''"
    by (simp add: test_message_def)
  from ins upd keep one all show ?thesis
    by (simp add: mid)
qed

text \<open>
  C3 (pagination). Suppose the first fetch, made without a cursor, returns a page of 100
  messages, the fetch with the id of the last message of that page as cursor returns a
  second page of 100, and the fetch with the id of the last message of the second page
  returns a page of 37. Then \<open>findAll\<close> ends, and after resolving the channel it has made
  exactly these three fetches, in this order, and no fourth one; its result is built from
  the three pages in order.
\<close>

theorem findAll_pagination:
  assumes "resolveCollectionChannel dc c \<sigma>0 = (Inr ch, \<sigma>1)"
    and "fetchMessages dc ch None \<sigma>1 = (Inr p1, \<sigma>2)" and "length p1 = 100"
    and "fetchMessages dc ch (Some (msg_id (last p1))) \<sigma>2 = (Inr p2, \<sigma>3)" and "length p2 = 100"
    and "fetchMessages dc ch (Some (msg_id (last p2))) \<sigma>3 = (Inr p3, \<sigma>4)" and "length p3 = 37"
  shows "findAll rt dc c (\<sigma>0, tr)
           = Some (Inr (collect_documents rt (p1 @ p2 @ p3) []),
                   (\<sigma>4, tr @ [ResolveCollectionChannel c,
                               FetchMessages ch None,
                               FetchMessages ch (Some (msg_id (last p1))),
                               FetchMessages ch (Some (msg_id (last p2)))]))"
proof -
  from assms have "served dc ch None \<sigma>1 [p1, p2, p3] = Some \<sigma>4" by simp
  moreover from assms have "\<forall>p\<in>set (butlast [p1, p2, p3]). 100 \<le> length p"
    "length (last [p1, p2, p3]) < 100" by simp_all
  ultimately have "findAll_loop rt dc ch None [] (\<sigma>1, tr @ [ResolveCollectionChannel c])
      = Some (Inr (collect_documents rt (concat [p1, p2, p3]) []),
              (\<sigma>4, (tr @ [ResolveCollectionChannel c]) @ fetch_calls ch None [p1, p2, p3]))"
    by (intro findAll_loop_served) simp_all
  with assms(1) show ?thesis by (simp add: findAll_def)
qed

text \<open>The scripted platform serving pages of 100, 100 and 37 messages.\<close>

theorem findAll_pagination_witness:
  "findAll sample_runtime fake_client (utf16 ''users'')
     (fake_paged [page_of 0 100, page_of 100 100, page_of 200 37], [])
     = Some (Inr (collect_documents sample_runtime (page_of 0 100 @ page_of 100 100 @ page_of 200 37) []),
             (fake_paged [],
              [ResolveCollectionChannel (utf16 ''users''),
               FetchMessages users_channel None,
               FetchMessages users_channel (Some (utf16 ''msg-99'')),
               FetchMessages users_channel (Some (utf16 ''msg-199''))]))"
  using findAll_pagination [where tr = "[]" and rt = sample_runtime, OF fake_paged_resolve
      fake_fetchMessages length_page_of fake_fetchMessages length_page_of
      fake_fetchMessages length_page_of]
  by (simp add: last_page_of digits_99 digits_199 utf16_def)

text \<open>
  C4 (shallow merge). Suppose the message exists, \<open>JSON.parse\<close> returns \<open>E\<close> for its
  text, and the edit call succeeds. Then \<open>update\<close> returns \<open>true\<close> and the text it stores
  with the edit call is \<open>JSON.stringify\<close> of the merge \<open>{ ...E, ...D }\<close>. In this merge
  every own property of \<open>D\<close> has \<open>D\<close>'s value and every other key has what it has in
  \<open>E\<close>, whatever kind of values \<open>E\<close> and \<open>D\<close> are. The merge is not recursive:
  \<open>{a: x, b: y}\<close> with \<open>{b: z}\<close> gives \<open>{a: x, b: z}\<close>, and \<open>{u: {x: p, y: q}}\<close> with
  \<open>{u: {x: r}}\<close> gives \<open>{u: {x: r}}\<close>, not \<open>{u: {x: r, y: q}}\<close>, for all values \<open>x\<close>,
  \<open>y\<close>, \<open>z\<close>, \<open>p\<close>, \<open>q\<close> and \<open>r\<close>.
\<close>

theorem update_shallow_merge:
  assumes "resolveCollectionChannel dc c \<sigma>0 = (Inr ch, \<sigma>1)"
    and "fetchMessageById dc ch mid \<sigma>1 = (Inr (Some m), \<sigma>2)"
    and "JSON_parse rt (content m) = Some E"
    and "editMessage dc m (JSON_stringify rt (merged E D)) \<sigma>2 = (Inr u, \<sigma>3)"
  shows "update rt dc c mid D (\<sigma>0, tr)
           = (Inr True, (\<sigma>3, tr @ [ResolveCollectionChannel c, FetchMessageById ch mid,
                                  EditMessage m (JSON_stringify rt (merged E D))]))
       \<and> (distinct_keys E \<and> distinct_keys D \<longrightarrow>
            (\<forall>k. own_property (merged E D) k
                   = (case own_property D k of Some v \<Rightarrow> Some v | None \<Rightarrow> own_property E k)))
       \<and> merged (JObj [(utf16 ''a'', x), (utf16 ''b'', y)]) (JObj [(utf16 ''b'', z)])
           = JObj [(utf16 ''a'', x), (utf16 ''b'', z)]
       \<and> merged (JObj [(utf16 ''u'', JObj [(utf16 ''x'', p), (utf16 ''y'', q)])])
                (JObj [(utf16 ''u'', JObj [(utf16 ''x'', r)])])
           = JObj [(utf16 ''u'', JObj [(utf16 ''x'', r)])]
       \<and> merged (JObj [(utf16 ''u'', JObj [(utf16 ''x'', p), (utf16 ''y'', q)])])
                (JObj [(utf16 ''u'', JObj [(utf16 ''x'', r)])])
           \<noteq> JObj [(utf16 ''u'', JObj [(utf16 ''x'', r), (utf16 ''y'', q)])]"
proof -
  from assms have 1: "update rt dc c mid D (\<sigma>0, tr)
           = (Inr True, (\<sigma>3, tr @ [ResolveCollectionChannel c, FetchMessageById ch mid,
                                  EditMessage m (JSON_stringify rt (merged E D))]))"
    by (simp add: update_def)
  have 2: "distinct_keys E \<and> distinct_keys D \<longrightarrow>
            (\<forall>k. own_property (merged E D) k
                   = (case own_property D k of Some v \<Rightarrow> Some v | None \<Rightarrow> own_property E k))"
    using own_property_merged by blast
  from 1 2 show ?thesis by (simp add: merged_examples)
qed

text \<open>The instance of the repository's test: \<open>{ name: 'Test', age: 30 }\<close> updated with \<open>{ age: 31 }\<close>.\<close>

theorem update_shallow_merge_witness:
  "update sample_runtime fake_client (utf16 ''users'') (utf16 ''message-123'')
       (JObj [(utf16 ''age'', JNum (Decimal 31 0))]) (fake_with [test_message], [])
     = (Inr True,
        (fake_with [test_message\<lparr>content :=
            write_json (JObj [(utf16 ''name'', JStr (utf16 ''Test'')), (utf16 ''age'', JNum (Decimal 31 0))])\<rparr>],
         [ResolveCollectionChannel (utf16 ''users''),
          FetchMessageById users_channel (utf16 ''message-123''),
          EditMessage test_message
            (write_json (JObj [(utf16 ''name'', JStr (utf16 ''Test'')),
                               (utf16 ''age'', JNum (Decimal 31 0))]))]))
   \<and> own_property (JObj [(utf16 ''name'', JStr (utf16 ''Test'')), (utf16 ''age'', JNum (Decimal 31 0))])
        (utf16 ''age'') = Some (JNum (Decimal 31 0))
   \<and> own_property (JObj [(utf16 ''name'', JStr (utf16 ''Test'')), (utf16 ''age'', JNum (Decimal 31 0))])
        (utf16 ''name'') = own_property test_payload (utf16 ''name'')"
proof -
  let ?D = "JObj [(utf16 ''age'', JNum (Decimal 31 0))] :: decimal json"
  have parse: "JSON_parse sample_runtime (content test_message) = Some test_payload"
    by (simp add: read_test)
  note inst = update_shallow_merge [OF fake_resolve_users fake_present(1) parse fake_edit,
      where tr = "[]" and D = ?D]
  from inst [THEN conjunct2, THEN conjunct1, rule_format,
      OF conjI [OF own_property_examples(4) own_property_examples(5)]]
  have 2: "own_property (merged test_payload ?D) k
           = (case own_property ?D k of Some v \<Rightarrow> Some v | None \<Rightarrow> own_property test_payload k)" for k .
  have age: "own_property ?D (utf16 ''age'') = Some (JNum (Decimal 31 0))"
    "own_property ?D (utf16 ''name'') = None"
    by (simp_all add: utf16_def code_of_def)
  have 1: "update sample_runtime fake_client (utf16 ''users'') (utf16 ''message-123'') ?D
             (fake_with [test_message], [])
     = (Inr True,
        (fake_with [test_message\<lparr>content :=
            write_json (JObj [(utf16 ''name'', JStr (utf16 ''Test'')), (utf16 ''age'', JNum (Decimal 31 0))])\<rparr>],
         [ResolveCollectionChannel (utf16 ''users''),
          FetchMessageById users_channel (utf16 ''message-123''),
          EditMessage test_message
            (write_json (JObj [(utf16 ''name'', JStr (utf16 ''Test'')),
                               (utf16 ''age'', JNum (Decimal 31 0))]))]))"
    using inst [THEN conjunct1] by (simp add: merged_test del: write_json.simps)
  note a = 2 [of "utf16 ''age''", unfolded merged_test age option.case]
  note b = 2 [of "utf16 ''name''", unfolded merged_test age option.case]
  from 1 a b show ?thesis by (intro conjI)
qed

text \<open>
  C5 (failure of the mutation). Let the message exist. If the edit call inside \<open>update\<close>
  is rejected, \<open>update\<close> returns \<open>false\<close> and raises nothing. If the delete call inside
  \<open>delete\<close> is rejected with \<open>e\<close>, \<open>delete\<close> is rejected with \<open>e\<close>.
\<close>

theorem mutation_failure_asymmetry:
  assumes "resolveCollectionChannel dc c \<sigma>0 = (Inr ch, \<sigma>1)"
    and "fetchMessageById dc ch mid \<sigma>1 = (Inr (Some m), \<sigma>2)"
  shows "(JSON_parse rt (content m) = Some E
            \<and> editMessage dc m (JSON_stringify rt (merged E D)) \<sigma>2 = (Inl e, \<sigma>3) \<longrightarrow>
            update rt dc c mid D (\<sigma>0, tr)
              = (Inr False, (\<sigma>3, tr @ [ResolveCollectionChannel c, FetchMessageById ch mid,
                                      EditMessage m (JSON_stringify rt (merged E D))])))
       \<and> (deleteMessage dc m \<sigma>2 = (Inl e, \<sigma>3) \<longrightarrow>
            delete dc c mid (\<sigma>0, tr)
              = (Inl e, (\<sigma>3, tr @ [ResolveCollectionChannel c, FetchMessageById ch mid,
                                 DeleteMessage m])))"
  using assms by (simp add: update_def delete_def)

text \<open>A platform on which both edit and delete fail.\<close>

theorem mutation_failure_asymmetry_witness:
  "update sample_runtime fake_client (utf16 ''users'') (utf16 ''message-123'')
       (JObj [(utf16 ''age'', JNum (Decimal 31 0))]) (fake_failing, [])
     = (Inr False, (fake_failing,
          [ResolveCollectionChannel (utf16 ''users''),
           FetchMessageById users_channel (utf16 ''message-123''),
           EditMessage test_message
             (write_json (merged test_payload (JObj [(utf16 ''age'', JNum (Decimal 31 0))])))]))
   \<and> delete fake_client (utf16 ''users'') (utf16 ''message-123'') (fake_failing, [])
     = (Inl (Error (utf16 ''Delete failed'')), (fake_failing,
          [ResolveCollectionChannel (utf16 ''users''),
           FetchMessageById users_channel (utf16 ''message-123''),
           DeleteMessage test_message]))"
proof -
  have res: "resolveCollectionChannel fake_client (utf16 ''users'') fake_failing
               = (Inr users_channel, fake_failing)"
    by (rule fake_resolve) (simp add: fake_defs fake_failing_def)
  have present: "fetchMessageById fake_client users_channel (utf16 ''message-123'') fake_failing
                  = (Inr (Some test_message), fake_failing)"
    by (rule fake_fetch) (simp_all add: fake_defs fake_failing_def test_message_def)
  have edit: "editMessage fake_client test_message t fake_failing
                = (Inl (Error (utf16 ''Edit failed'')), fake_failing)" for t
    by (simp add: fake_defs fake_failing_def)
  have del: "deleteMessage fake_client test_message fake_failing
               = (Inl (Error (utf16 ''Delete failed'')), fake_failing)"
    by (simp add: fake_defs fake_failing_def)
  have parse: "JSON_parse sample_runtime (content test_message) = Some test_payload"
    by (simp add: read_test)
  note inst = mutation_failure_asymmetry [OF res present, where rt = sample_runtime]
  have 1: "update sample_runtime fake_client (utf16 ''users'') (utf16 ''message-123'')
       (JObj [(utf16 ''age'', JNum (Decimal 31 0))]) (fake_failing, [])
     = (Inr False, (fake_failing,
          [] @ [ResolveCollectionChannel (utf16 ''users''),
           FetchMessageById users_channel (utf16 ''message-123''),
           EditMessage test_message
             (JSON_stringify sample_runtime
                (merged test_payload (JObj [(utf16 ''age'', JNum (Decimal 31 0))])))]))"
    by (rule inst [THEN conjunct1, rule_format, OF conjI [OF parse edit]])
  have 2: "delete fake_client (utf16 ''users'') (utf16 ''message-123'') (fake_failing, [])
     = (Inl (Error (utf16 ''Delete failed'')), (fake_failing,
          [] @ [ResolveCollectionChannel (utf16 ''users''),
           FetchMessageById users_channel (utf16 ''message-123''),
           DeleteMessage test_message]))"
    by (rule inst [THEN conjunct2, rule_format, OF del])
  from 1 2 show ?thesis by simp
qed

text \<open>
  C6 (corrupt envelopes are skipped). Let the history of the collection be served in the
  pages \<open>history\<close>, each page but the last being full (100 messages or more) and the last
  one short. Then \<open>findAll\<close> ends without an error and returns exactly the documents of
  the messages whose text \<open>JSON.parse\<close> accepts, one for each of them, in the order in
  which the messages were fetched; the messages on whose text \<open>JSON.parse\<close> throws leave
  no trace in the result.
\<close>

theorem findAll_skips_corrupt:
  assumes "resolveCollectionChannel dc c \<sigma>0 = (Inr ch, \<sigma>1)"
    and "served dc ch None \<sigma>1 history = Some \<sigma>'"
    and "history \<noteq> []"
    and "\<forall>p\<in>set (butlast history). 100 \<le> length p"
    and "length (last history) < 100"
  shows "findAll rt dc c (\<sigma>0, tr)
           = Some (Inr (map (\<lambda>m. document (msg_id m) (the (JSON_parse rt (content m))))
                         (filter (\<lambda>m. JSON_parse rt (content m) \<noteq> None) (concat history))),
                   (\<sigma>', tr @ ResolveCollectionChannel c # fetch_calls ch None history))"
proof -
  from assms(2-5) have "findAll_loop rt dc ch None [] (\<sigma>1, tr @ [ResolveCollectionChannel c])
      = Some (Inr (collect_documents rt (concat history) []),
              (\<sigma>', (tr @ [ResolveCollectionChannel c]) @ fetch_calls ch None history))"
    by (rule findAll_loop_served)
  with assms(1) show ?thesis by (simp add: findAll_def collect_documents_eq)
qed

text \<open>
  An instance with two pages: a full first page of 99 valid messages and a corrupt one,
  then the three messages of the repository's test, a corrupt one between two valid ones.
\<close>

theorem findAll_skips_corrupt_witness:
  "findAll sample_runtime fake_client (utf16 ''users'')
     (fake_paged [page_of 0 99 @ [broken], [alice, broken, charlie]], [])
     = Some (Inr (map (\<lambda>m. document (msg_id m) (the (JSON_parse sample_runtime (content m)))) (page_of 0 99)
                  @ [JObj [(utf16 ''id'', JStr (utf16 ''msg-1'')), (utf16 ''name'', JStr (utf16 ''Alice''))],
                     JObj [(utf16 ''id'', JStr (utf16 ''msg-3'')), (utf16 ''name'', JStr (utf16 ''Charlie''))]]),
             (fake_paged [],
              [ResolveCollectionChannel (utf16 ''users''), FetchMessages users_channel None,
               FetchMessages users_channel (Some (utf16 ''msg-2''))]))"
proof -
  let ?history = "[page_of 0 99 @ [broken], [alice, broken, charlie]]"
  let ?doc = "\<lambda>m. document (msg_id m) (the (JSON_parse sample_runtime (content m)))"
  have served: "served fake_client users_channel None (fake_paged ?history) ?history = Some (fake_paged [])"
    by (simp add: fake_fetchMessages)
  have full: "\<forall>p\<in>set (butlast ?history). 100 \<le> length p"
    by (simp add: length_page_of)
  have short: "length (last ?history) < 100"
    by simp
  have "findAll sample_runtime fake_client (utf16 ''users'') (fake_paged ?history, [])
     = Some (Inr (map ?doc (filter (\<lambda>m. JSON_parse sample_runtime (content m) \<noteq> None) (concat ?history))),
             (fake_paged [], [] @ ResolveCollectionChannel (utf16 ''users'')
                # fetch_calls users_channel None ?history))"
    by (rule findAll_skips_corrupt [OF fake_paged_resolve served _ full short]) simp
  moreover have "filter (\<lambda>m. JSON_parse sample_runtime (content m) \<noteq> None) (concat ?history)
                   = page_of 0 99 @ [alice, charlie]"
    by (simp add: filter_page_of read_alice read_broken read_charlie)
  moreover have "fetch_calls users_channel None ?history
                   = [FetchMessages users_channel None, FetchMessages users_channel (Some (utf16 ''msg-2''))]"
    by (simp add: broken_def)
  moreover have "?doc alice
                   = JObj [(utf16 ''id'', JStr (utf16 ''msg-1'')), (utf16 ''name'', JStr (utf16 ''Alice''))]"
    by (simp add: read_alice) (simp add: alice_def document_alice)
  moreover have "?doc charlie
                   = JObj [(utf16 ''id'', JStr (utf16 ''msg-3'')), (utf16 ''name'', JStr (utf16 ''Charlie''))]"
    by (simp add: read_charlie) (simp add: charlie_def document_charlie)
  ultimately show ?thesis
    by (simp only: map_append list.map append_Nil)
qed

text \<open>
  C7 (\<open>update\<close> gives up early). Once the collection is resolved: if the message is
  absent (\<open>fetchMessageById\<close> returns no message), \<open>update\<close> returns \<open>false\<close>; if the
  message exists and \<open>JSON.parse\<close> throws on its text, \<open>update\<close> returns \<open>false\<close> as well.
  In both cases the calls made are the channel resolution and the fetch only: the edit
  primitive is not invoked.
\<close>

theorem update_fails_fast:
  assumes "resolveCollectionChannel dc c \<sigma>0 = (Inr ch, \<sigma>1)"
  shows "(fetchMessageById dc ch mid \<sigma>1 = (Inr None, \<sigma>2) \<longrightarrow>
            update rt dc c mid D (\<sigma>0, tr)
              = (Inr False, (\<sigma>2, tr @ [ResolveCollectionChannel c, FetchMessageById ch mid])))
       \<and> (fetchMessageById dc ch mid \<sigma>1 = (Inr (Some m), \<sigma>2) \<and> JSON_parse rt (content m) = None \<longrightarrow>
            update rt dc c mid D (\<sigma>0, tr)
              = (Inr False, (\<sigma>2, tr @ [ResolveCollectionChannel c, FetchMessageById ch mid])))"
  using assms by (simp add: update_def)

text \<open>An absent message, and a message whose text is \<open>invalid json\<close>.\<close>

theorem update_fails_fast_witness:
  "update sample_runtime fake_client (utf16 ''users'') (utf16 ''non-existent'')
       (JObj [(utf16 ''age'', JNum (Decimal 31 0))]) (fake_with [], [])
     = (Inr False, (fake_with [],
          [ResolveCollectionChannel (utf16 ''users''),
           FetchMessageById users_channel (utf16 ''non-existent'')]))
   \<and> update sample_runtime fake_client (utf16 ''users'') (utf16 ''message-123'')
       (JObj [(utf16 ''age'', JNum (Decimal 31 0))]) (fake_with [invalid_message], [])
     = (Inr False, (fake_with [invalid_message],
          [ResolveCollectionChannel (utf16 ''users''),
           FetchMessageById users_channel (utf16 ''message-123'')]))"
proof -
  have corrupt: "JSON_parse sample_runtime (content invalid_message) = None"
    by (simp add: invalid_message_def read_invalid)
  note inst = update_fails_fast [OF fake_resolve_users, where rt = sample_runtime and tr = "[]"
      and D = "JObj [(utf16 ''age'', JNum (Decimal 31 0))]"]
  have 1: "update sample_runtime fake_client (utf16 ''users'') (utf16 ''non-existent'')
       (JObj [(utf16 ''age'', JNum (Decimal 31 0))]) (fake_with [], [])
     = (Inr False, (fake_with [],
          [] @ [ResolveCollectionChannel (utf16 ''users''),
           FetchMessageById users_channel (utf16 ''non-existent'')]))"
    by (rule inst [THEN conjunct1, rule_format, OF fake_fetch_absent])
  have 2: "update sample_runtime fake_client (utf16 ''users'') (utf16 ''message-123'')
       (JObj [(utf16 ''age'', JNum (Decimal 31 0))]) (fake_with [invalid_message], [])
     = (Inr False, (fake_with [invalid_message],
          [] @ [ResolveCollectionChannel (utf16 ''users''),
           FetchMessageById users_channel (utf16 ''message-123'')]))"
    by (rule inst [THEN conjunct2, rule_format, OF conjI [OF fake_present(2) corrupt]])
  from 1 2 show ?thesis by simp
qed

text \<open>
  C8 (\<open>delete\<close>). Once the collection is resolved: if the message is absent, \<open>delete\<close>
  returns \<open>false\<close> and the delete primitive is not invoked; if the message exists, the
  delete primitive is invoked exactly once, on that message, and when that call completes
  \<open>delete\<close> returns \<open>true\<close>.
\<close>

theorem delete_behaviour:
  assumes "resolveCollectionChannel dc c \<sigma>0 = (Inr ch, \<sigma>1)"
  shows "(fetchMessageById dc ch mid \<sigma>1 = (Inr None, \<sigma>2) \<longrightarrow>
            delete dc c mid (\<sigma>0, tr)
              = (Inr False, (\<sigma>2, tr @ [ResolveCollectionChannel c, FetchMessageById ch mid])))
       \<and> (fetchMessageById dc ch mid \<sigma>1 = (Inr (Some m), \<sigma>2) \<longrightarrow>
            snd (snd (delete dc c mid (\<sigma>0, tr)))
              = tr @ [ResolveCollectionChannel c, FetchMessageById ch mid, DeleteMessage m])
       \<and> (fetchMessageById dc ch mid \<sigma>1 = (Inr (Some m), \<sigma>2)
            \<and> deleteMessage dc m \<sigma>2 = (Inr u, \<sigma>3) \<longrightarrow>
            delete dc c mid (\<sigma>0, tr)
              = (Inr True, (\<sigma>3, tr @ [ResolveCollectionChannel c, FetchMessageById ch mid,
                                     DeleteMessage m])))"
  using assms by (auto simp: delete_def split: prod.splits sum.splits)

text \<open>An absent message, and the message of the repository's test.\<close>

theorem delete_behaviour_witness:
  "delete fake_client (utf16 ''users'') (utf16 ''non-existent'') (fake_with [], [])
     = (Inr False, (fake_with [],
          [ResolveCollectionChannel (utf16 ''users''),
           FetchMessageById users_channel (utf16 ''non-existent'')]))
   \<and> snd (snd (delete fake_client (utf16 ''users'') (utf16 ''message-123'') (fake_with [test_message], [])))
     = [ResolveCollectionChannel (utf16 ''users''),
        FetchMessageById users_channel (utf16 ''message-123''),
        DeleteMessage test_message]
   \<and> delete fake_client (utf16 ''users'') (utf16 ''message-123'') (fake_with [test_message], [])
     = (Inr True, (fake_with [],
          [ResolveCollectionChannel (utf16 ''users''),
           FetchMessageById users_channel (utf16 ''message-123''),
           DeleteMessage test_message]))"
proof -
  have deleted: "deleteMessage fake_client test_message (fake_with [test_message]) = (Inr (), fake_with [])"
    by (simp add: fake_defs)
  note inst = delete_behaviour [OF fake_resolve_users, where tr = "[]"]
  have 1: "delete fake_client (utf16 ''users'') (utf16 ''non-existent'') (fake_with [], [])
     = (Inr False, (fake_with [],
          [] @ [ResolveCollectionChannel (utf16 ''users''),
           FetchMessageById users_channel (utf16 ''non-existent'')]))"
    by (rule inst [THEN conjunct1, rule_format, OF fake_fetch_absent])
  have 2: "snd (snd (delete fake_client (utf16 ''users'') (utf16 ''message-123'') (fake_with [test_message], [])))
     = [] @ [ResolveCollectionChannel (utf16 ''users''),
        FetchMessageById users_channel (utf16 ''message-123''),
        DeleteMessage test_message]"
    by (rule inst [THEN conjunct2, THEN conjunct1, rule_format, OF fake_present(1)])
  have 3: "delete fake_client (utf16 ''users'') (utf16 ''message-123'') (fake_with [test_message], [])
     = (Inr True, (fake_with [],
          [] @ [ResolveCollectionChannel (utf16 ''users''),
           FetchMessageById users_channel (utf16 ''message-123''),
           DeleteMessage test_message]))"
    by (rule inst [THEN conjunct2, THEN conjunct2, rule_format, OF conjI [OF fake_present(1) deleted]])
  from 1 2 3 show ?thesis by simp
qed

text \<open>
  C9 (absence on lookup). Whenever the platform's fetch of a single message is rejected,
  for whatever reason, \<open>fetchMessageById\<close> returns no message; it is never rejected itself.
  Hence \<open>findById\<close> returns \<open>null\<close> when the fetch fails, and it returns the same \<open>null\<close>
  when the message exists and \<open>JSON.parse\<close> throws on its text.
\<close>

theorem lookup_absence:
  "(message_fetch (client dc) ch mid \<sigma>1 = (Inl e, \<sigma>2) \<longrightarrow>
      fetchMessageById dc ch mid \<sigma>1 = (Inr None, \<sigma>2))
   \<and> fst (fetchMessageById dc ch mid \<sigma>1) \<noteq> Inl e'
   \<and> (resolveCollectionChannel dc c \<sigma>0 = (Inr ch, \<sigma>1)
        \<and> message_fetch (client dc) ch mid \<sigma>1 = (Inl e, \<sigma>2) \<longrightarrow>
        findById rt dc c mid (\<sigma>0, tr)
          = (Inr None, (\<sigma>2, tr @ [ResolveCollectionChannel c, FetchMessageById ch mid])))
   \<and> (resolveCollectionChannel dc c \<sigma>0 = (Inr ch, \<sigma>1)
        \<and> message_fetch (client dc) ch mid \<sigma>1 = (Inr m, \<sigma>2)
        \<and> JSON_parse rt (content m) = None \<longrightarrow>
        findById rt dc c mid (\<sigma>0, tr)
          = (Inr None, (\<sigma>2, tr @ [ResolveCollectionChannel c, FetchMessageById ch mid])))"
  by (auto simp: findById_def fetchMessageById_def split: prod.splits sum.splits)

text \<open>A network error, an unknown message and a corrupt message on the scripted platform.\<close>

theorem lookup_absence_witness:
  "fetchMessageById fake_client users_channel (utf16 ''message-123'') fake_offline = (Inr None, fake_offline)
   \<and> findById sample_runtime fake_client (utf16 ''users'') (utf16 ''message-123'') (fake_offline, [])
       = (Inr None, (fake_offline,
            [ResolveCollectionChannel (utf16 ''users''),
             FetchMessageById users_channel (utf16 ''message-123'')]))
   \<and> findById sample_runtime fake_client (utf16 ''users'') (utf16 ''non-existent'') (fake_with [], [])
       = (Inr None, (fake_with [],
            [ResolveCollectionChannel (utf16 ''users''),
             FetchMessageById users_channel (utf16 ''non-existent'')]))
   \<and> findById sample_runtime fake_client (utf16 ''users'') (utf16 ''message-123'')
         (fake_with [invalid_message], [])
       = (Inr None, (fake_with [invalid_message],
            [ResolveCollectionChannel (utf16 ''users''),
             FetchMessageById users_channel (utf16 ''message-123'')]))"
proof -
  have res: "resolveCollectionChannel fake_client (utf16 ''users'') fake_offline
               = (Inr users_channel, fake_offline)"
    by (rule fake_resolve) (simp add: fake_defs fake_offline_def)
  have offline: "message_fetch (client fake_client) users_channel (utf16 ''message-123'') fake_offline
                   = (Inl (Error (utf16 ''Network error'')), fake_offline)"
    by (simp add: fake_defs fake_offline_def)
  have unknown: "message_fetch (client fake_client) users_channel (utf16 ''non-existent'') (fake_with [])
                   = (Inl (Error (utf16 ''Unknown Message'')), fake_with [])"
    by (simp add: fake_defs)
  have corrupt: "message_fetch (client fake_client) users_channel (utf16 ''message-123'')
                     (fake_with [invalid_message])
                   = (Inr invalid_message, fake_with [invalid_message])"
    by (simp add: fake_defs invalid_message_def)
  have bad: "JSON_parse sample_runtime (content invalid_message) = None"
    by (simp add: invalid_message_def read_invalid)
  note inst = lookup_absence [where rt = sample_runtime and tr = "[]"]
  have 1: "fetchMessageById fake_client users_channel (utf16 ''message-123'') fake_offline
             = (Inr None, fake_offline)"
    by (rule lookup_absence [THEN conjunct1, rule_format, OF offline])
  have 2: "findById sample_runtime fake_client (utf16 ''users'') (utf16 ''message-123'') (fake_offline, [])
       = (Inr None, (fake_offline,
            [] @ [ResolveCollectionChannel (utf16 ''users''),
             FetchMessageById users_channel (utf16 ''message-123'')]))"
    by (rule inst [THEN conjunct2, THEN conjunct2, THEN conjunct1, rule_format,
          OF conjI [OF res offline]])
  have 3: "findById sample_runtime fake_client (utf16 ''users'') (utf16 ''non-existent'') (fake_with [], [])
       = (Inr None, (fake_with [],
            [] @ [ResolveCollectionChannel (utf16 ''users''),
             FetchMessageById users_channel (utf16 ''non-existent'')]))"
    by (rule inst [THEN conjunct2, THEN conjunct2, THEN conjunct1, rule_format,
          OF conjI [OF fake_resolve_users unknown]])
  have 4: "findById sample_runtime fake_client (utf16 ''users'') (utf16 ''message-123'')
         (fake_with [invalid_message], [])
       = (Inr None, (fake_with [invalid_message],
            [] @ [ResolveCollectionChannel (utf16 ''users''),
             FetchMessageById users_channel (utf16 ''message-123'')]))"
    by (rule inst [THEN conjunct2, THEN conjunct2, THEN conjunct2, rule_format,
          OF conjI [OF fake_resolve_users conjI [OF corrupt bad]]])
  from 1 2 3 4 show ?thesis by simp
qed

text \<open>
  C10 (scalar envelopes). Let \<open>JSON.parse\<close> return a number, a boolean or \<open>null\<close> for the
  text of a message. Then the page loop of \<open>findAll\<close> does not skip the message and
  \<open>findById\<close> does not treat it as absent: both return for it the document whose only
  property is \<open>id\<close>, bound to the id of the message.
\<close>

theorem scalar_envelope:
  assumes "JSON_parse rt (content m) = Some v" and "scalar v"
  shows "collect_documents rt [m] results = results @ [JObj [(utf16 ''id'', JStr (msg_id m))]]
       \<and> (resolveCollectionChannel dc c \<sigma>0 = (Inr ch, \<sigma>1)
            \<and> fetchMessages dc ch None \<sigma>1 = (Inr [m], \<sigma>2) \<longrightarrow>
            findAll rt dc c (\<sigma>0, tr)
              = Some (Inr [JObj [(utf16 ''id'', JStr (msg_id m))]],
                      (\<sigma>2, tr @ [ResolveCollectionChannel c, FetchMessages ch None])))
       \<and> (resolveCollectionChannel dc c \<sigma>0 = (Inr ch, \<sigma>1)
            \<and> fetchMessageById dc ch mid \<sigma>1 = (Inr (Some m), \<sigma>2) \<longrightarrow>
            findById rt dc c mid (\<sigma>0, tr)
              = (Inr (Some (JObj [(utf16 ''id'', JStr (msg_id m))])),
                 (\<sigma>2, tr @ [ResolveCollectionChannel c, FetchMessageById ch mid])))"
proof -
  from assms have doc: "collect_documents rt [m] results = results @ [JObj [(utf16 ''id'', JStr (msg_id m))]]"
    for results by (simp add: document_scalar)
  have all: "findAll rt dc c (\<sigma>0, tr)
              = Some (Inr [JObj [(utf16 ''id'', JStr (msg_id m))]],
                      (\<sigma>2, tr @ [ResolveCollectionChannel c, FetchMessages ch None]))"
    if "resolveCollectionChannel dc c \<sigma>0 = (Inr ch, \<sigma>1)"
      and "fetchMessages dc ch None \<sigma>1 = (Inr [m], \<sigma>2)"
    using that doc [of "[]"] by (simp add: findAll_def findAll_loop.simps del: collect_documents.simps)
  have one: "findById rt dc c mid (\<sigma>0, tr)
              = (Inr (Some (JObj [(utf16 ''id'', JStr (msg_id m))])),
                 (\<sigma>2, tr @ [ResolveCollectionChannel c, FetchMessageById ch mid]))"
    if "resolveCollectionChannel dc c \<sigma>0 = (Inr ch, \<sigma>1)"
      and "fetchMessageById dc ch mid \<sigma>1 = (Inr (Some m), \<sigma>2)"
    using that assms by (simp add: findById_def document_scalar)
  from doc all one show ?thesis by blast
qed

text \<open>The envelope \<open>42\<close>.\<close>

theorem scalar_envelope_witness:
  "JSON_parse sample_runtime (content number_message) = Some (JNum (Decimal 42 0))
   \<and> collect_documents sample_runtime [number_message] []
       = [JObj [(utf16 ''id'', JStr (utf16 ''message-123''))]]
   \<and> findAll sample_runtime fake_client (utf16 ''users'') (fake_paged [[number_message]], [])
       = Some (Inr [JObj [(utf16 ''id'', JStr (utf16 ''message-123''))]],
               (fake_paged [],
                [ResolveCollectionChannel (utf16 ''users''), FetchMessages users_channel None]))
   \<and> findById sample_runtime fake_client (utf16 ''users'') (utf16 ''message-123'')
         (fake_with [number_message], [])
       = (Inr (Some (JObj [(utf16 ''id'', JStr (utf16 ''message-123''))])),
          (fake_with [number_message],
           [ResolveCollectionChannel (utf16 ''users''),
            FetchMessageById users_channel (utf16 ''message-123'')]))"
proof -
  have p: "JSON_parse sample_runtime (content number_message) = Some (JNum (Decimal 42 0))"
    by (simp add: number_message_def read_number)
  have s: "scalar (JNum (Decimal 42 0))" by simp
  note inst = scalar_envelope [OF p s, where tr = "[]"]
  have 1: "collect_documents sample_runtime [number_message] []
             = [] @ [JObj [(utf16 ''id'', JStr (msg_id number_message))]]"
    by (rule inst [THEN conjunct1])
  have 2: "findAll sample_runtime fake_client (utf16 ''users'') (fake_paged [[number_message]], [])
       = Some (Inr [JObj [(utf16 ''id'', JStr (msg_id number_message))]],
               (fake_paged [],
                [] @ [ResolveCollectionChannel (utf16 ''users''), FetchMessages users_channel None]))"
    by (rule inst [THEN conjunct2, THEN conjunct1, rule_format,
          OF conjI [OF fake_paged_resolve fake_fetchMessages]])
  have 3: "findById sample_runtime fake_client (utf16 ''users'') (utf16 ''message-123'')
         (fake_with [number_message], [])
       = (Inr (Some (JObj [(utf16 ''id'', JStr (msg_id number_message))])),
          (fake_with [number_message],
           [] @ [ResolveCollectionChannel (utf16 ''users''),
            FetchMessageById users_channel (utf16 ''message-123'')]))"
    by (rule inst [THEN conjunct2, THEN conjunct2, rule_format,
          OF conjI [OF fake_resolve_users fake_present(3)]])
  from p 1 2 3 show ?thesis by (simp add: number_message_def)
qed

end
